theory Spec2Isabelle
  imports Main "HOL-Library.Word" "HOL-Library.Sublist"
begin

section \<open>Python values, exceptions and the C helpers used by resultproxy.c\<close>

text \<open>
  The extension module is modelled as it is compiled for Python 3 on an LP64 platform
  (\<open>PY_MAJOR_VERSION >= 3\<close>, \<open>Py_ssize_t\<close> and \<open>long\<close> of 64 bits, \<open>int\<close> of 32 bits).
  Reference counts are not modelled, with one exception: where the code releases an
  object and reads it again (the record answered by \<open>_key_fallback\<close>), the model records
  whether the object is still alive.

  Python objects that the functions inspect are values of \<open>pyobj\<close>: \<open>None\<close>, exact
  integers, text (a list of code points), tuples, lists, slices, and opaque instances
  (column objects and the like) which are neither sequences nor integers and do not
  convert to an integer.
\<close>

datatype pyobj =
    PyNone
  | PyLong int
  | PyUnicode "nat list"
  | PyTuple "pyobj list"
  | PyList "pyobj list"
  | PySlice pyobj pyobj pyobj
  | PyOpaque nat

text \<open>
  Exception classes. \<open>Derived c n\<close> is the \<open>n\<close>-th user-defined subclass of \<open>c\<close>;
  \<open>InvalidRequestError\<close> is the class the module imports from \<open>sqlalchemy.exc\<close>.
  An exception is its class and its message. \<open>Fault\<close> marks undefined behaviour of the C
  code, for which it has no check: a dereference of a NULL struct field, or a read of an
  object after its last reference was released. No Python exception is raised there.
\<close>

datatype exc_type =
    RuntimeError | TypeError | IndexError | KeyError | AttributeError | SystemError
  | OverflowError | UnicodeEncodeError | InvalidRequestError
  | Derived exc_type nat

datatype exc = Exc exc_type string | Fault

text \<open>\<open>PyErr_ExceptionMatches\<close>: the class of the pending exception is the given class or
  derives from it.\<close>

fun issubclass :: "exc_type \<Rightarrow> exc_type \<Rightarrow> bool" where
  "issubclass (Derived c n) base = (Derived c n = base \<or> issubclass c base)"
| "issubclass c base = (c = base)"

fun PyErr_ExceptionMatches :: "exc \<Rightarrow> exc_type \<Rightarrow> bool" where
  "PyErr_ExceptionMatches (Exc c m) base = issubclass c base"
| "PyErr_ExceptionMatches Fault base = False"

subsection \<open>Formatting\<close>

text \<open>\<open>%d\<close> of \<open>PyErr_Format\<close>: the decimal form of a C \<open>int\<close>.\<close>

fun dec_digits :: "nat \<Rightarrow> string" where
  "dec_digits n =
     (if n < 10 then [char_of (48 + n)]
      else dec_digits (n div 10) @ [char_of (48 + n mod 10)])"

declare dec_digits.simps [simp del]

definition format_d :: "int \<Rightarrow> string" where
  "format_d i = (if i < 0 then CHR ''-'' # dec_digits (nat (- i)) else dec_digits (nat i))"

text \<open>The cast \<open>(int)\<close> applied to a \<open>Py_ssize_t\<close>: the low 32 bits, read as two's complement.\<close>

definition c_int :: "int \<Rightarrow> int" where
  "c_int n = sint (word_of_int n :: 32 word)"

text \<open>\<open>%.200s\<close> of \<open>PyErr_Format\<close> on a C string: it ends at the first NUL byte and at most
  200 bytes of it are copied.\<close>

definition format_s200 :: "string \<Rightarrow> string" where
  "format_s200 cstr = take 200 (takeWhile (\<lambda>c. c \<noteq> CHR 0x00) cstr)"

text \<open>
  The UnicodeEncodeError of the ASCII codec. The codec stops at the first code point that is
  not below 128 and collects the run of such code points that starts there; the message
  names the character (as \<open>\\xNN\<close>, \<open>\\uNNNN\<close> or \<open>\\UNNNNNNNN\<close>) and its position when the
  run has one character, and the positions of the run otherwise.
\<close>

definition hex_digit :: "nat \<Rightarrow> char" where
  "hex_digit d = ''0123456789abcdef'' ! (d mod 16)"

fun hex_fixed :: "nat \<Rightarrow> nat \<Rightarrow> string" where
  "hex_fixed 0 n = []"
| "hex_fixed (Suc k) n = hex_fixed k (n div 16) @ [hex_digit n]"

definition badchar_repr :: "nat \<Rightarrow> string" where
  "badchar_repr c =
     (if c \<le> 255 then [CHR 0x5C, CHR ''x''] @ hex_fixed 2 c
      else if c \<le> 65535 then [CHR 0x5C, CHR ''u''] @ hex_fixed 4 c
      else [CHR 0x5C, CHR ''U''] @ hex_fixed 8 c)"

definition ascii_encode_error :: "nat list \<Rightarrow> exc" where
  "ascii_encode_error u =
     (let start = length (takeWhile (\<lambda>c. c < 128) u);
          run = takeWhile (\<lambda>c. 128 \<le> c) (drop start u)
      in Exc UnicodeEncodeError
           (if length run = 1
            then [CHR 0x27] @ ''ascii'' @ [CHR 0x27] @ '' codec can'' @ [CHR 0x27] @
                 ''t encode character '' @ [CHR 0x27] @ badchar_repr (u ! start) @ [CHR 0x27] @
                 '' in position '' @ dec_digits start @ '': ordinal not in range(128)''
            else [CHR 0x27] @ ''ascii'' @ [CHR 0x27] @ '' codec can'' @ [CHR 0x27] @
                 ''t encode characters in position '' @ dec_digits start @ ''-'' @
                 dec_digits (start + length run - 1) @ '': ordinal not in range(128)''))"

text \<open>\<open>PyUnicode_AsASCIIString\<close>, called with no exception pending: the bytes of a text all of
  whose code points are below 128, and the codec's UnicodeEncodeError otherwise.\<close>

definition PyUnicode_AsASCIIString :: "nat list \<Rightarrow> exc + string" where
  "PyUnicode_AsASCIIString u =
     (if list_all (\<lambda>c. c < 128) u then Inr (map char_of u)
      else Inl (ascii_encode_error u))"

text \<open>
  \<open>PyUnicode_AsASCIIString\<close>, called while an exception is pending. An ASCII text is copied
  without any call, so the bytes are returned and the pending exception stays. For any other
  text the codec calls the class UnicodeEncodeError to build its exception; the interpreter
  finds the earlier exception still set when that call returns and raises SystemError in
  its place (the wording of that message is the interpreter's).
\<close>

definition pending_exception_message :: string where
  "pending_exception_message =
     ''<class '' @ [CHR 0x27] @ ''UnicodeEncodeError'' @ [CHR 0x27] @
     ''> returned a result with an exception set''"

definition PyUnicode_AsASCIIString_pending :: "nat list \<Rightarrow> exc + string" where
  "PyUnicode_AsASCIIString_pending u =
     (if list_all (\<lambda>c. c < 128) u then Inr (map char_of u)
      else Inl (Exc SystemError pending_exception_message))"

subsection \<open>Calling a method with the format "O"\<close>

text \<open>
  \<open>PyObject_CallMethod(obj, name, "O", arg)\<close> builds the single value \<open>arg\<close> from the format.
  When that value is a tuple it is taken as the argument tuple of the call; any other value
  is passed as the only argument.
\<close>

fun call_args :: "pyobj \<Rightarrow> pyobj list" where
  "call_args (PyTuple xs) = xs"
| "call_args arg = [arg]"

subsection \<open>Sequences\<close>

text \<open>\<open>PySequence_Fast(o, msg)\<close>: a tuple or a list is used as it is, any other iterable is
  copied into a list (a text yields its one-character texts), and an object that cannot be
  iterated raises TypeError with the given message. The result is the array of items.\<close>

fun PySequence_Fast :: "pyobj \<Rightarrow> string \<Rightarrow> exc + pyobj list" where
  "PySequence_Fast (PyTuple xs) m = Inr xs"
| "PySequence_Fast (PyList xs) m = Inr xs"
| "PySequence_Fast (PyUnicode u) m = Inr (map (\<lambda>c. PyUnicode [c]) u)"
| "PySequence_Fast v m = Inl (Exc TypeError m)"

fun PySequence_Check :: "pyobj \<Rightarrow> bool" where
  "PySequence_Check (PyTuple xs) = True"
| "PySequence_Check (PyList xs) = True"
| "PySequence_Check (PyUnicode u) = True"
| "PySequence_Check v = False"

section \<open>The BaseRow struct and its collaborators\<close>

text \<open>
  The metadata object (\<open>parent\<close>): its identity, its \<open>_key_fallback\<close> method, and whether
  it is an instance of \<open>ResultMetaData\<close>. The method receives the positional arguments of the
  call and returns a new reference to a record, together with whether some other reference
  (the metadata's own tables, say) keeps that record alive once the caller has released
  its own. A keymap is a dict from keys to records; a record is a Python tuple whose item 0
  is the index (or \<open>None\<close>) and whose item 2 is rendered in the ambiguous-column message.
\<close>

record metadata =
  md_id :: nat
  key_fallback :: "pyobj list \<Rightarrow> exc + pyobj \<times> bool"
  is_ResultMetaData :: bool

type_synonym keymap_dict = "pyobj \<rightharpoonup> pyobj"

text \<open>The object passed where a keymap is expected: a dict, or anything else.\<close>

datatype keymap_obj = PyDict keymap_dict | NonDict pyobj

text \<open>A column processor is a callable of one argument; an entry of the processor list is
  \<open>None\<close> (Py_None) or a callable.\<close>

type_synonym processor = "pyobj \<Rightarrow> exc + pyobj"

text \<open>\<open>struct BaseRow\<close>: three object pointers, each possibly NULL (\<open>None\<close>).\<close>

record BaseRow =
  parent :: "metadata option"
  row :: "pyobj option"
  keymap :: "keymap_dict option"

section \<open>BaseRow\_init\<close>

text \<open>
  The loop of \<open>BaseRow_init\<close>: \<open>funcptr\<close>, \<open>valueptr\<close> and \<open>resultptr\<close> advance together
  over the processors, the values and the slots of the new tuple; \<open>result\<close> holds the
  slots filled so far. The first processor that fails ends the loop with its exception.
  The loop runs once per value; the caller has checked that there are as many processors.
\<close>

fun init_loop :: "processor option list \<Rightarrow> pyobj list \<Rightarrow> pyobj list \<Rightarrow> exc + pyobj list" where
  "init_loop (func # funcptr) (val # valueptr) result =
     (case func of
        Some f \<Rightarrow>
          (case f val of
             Inl e \<Rightarrow> Inl e
           | Inr processed_value \<Rightarrow> init_loop funcptr valueptr (result @ [processed_value]))
      | None \<Rightarrow> init_loop funcptr valueptr (result @ [val]))"
| "init_loop funcptr valueptr result = Inr result"

definition arity_message :: "int \<Rightarrow> int \<Rightarrow> string" where
  "arity_message num_values num_processors =
     ''number of values in row ('' @ format_d (c_int num_values) @
     '') differ from number of column processors ('' @ format_d (c_int num_processors) @ '')''"

text \<open>
  \<open>BaseRow_init(self, (parent, processors, keymap, row))\<close> returns 0 or -1 and writes the
  fields of \<open>self\<close>: the model returns the outcome and the struct as the function leaves it.
  The four arguments stand for the argument tuple that \<open>PyArg_UnpackTuple\<close> has accepted, and
  \<open>processors\<close> is a list object.
\<close>

definition BaseRow_init ::
  "BaseRow \<Rightarrow> metadata \<Rightarrow> processor option list \<Rightarrow> keymap_obj \<Rightarrow> pyobj
     \<Rightarrow> (exc + unit) \<times> BaseRow" where
  "BaseRow_init self parent' processors keymap' row' =
     (let self1 = self\<lparr>parent := Some parent'\<rparr> in
      case PySequence_Fast row' ''row must be a sequence'' of
        Inl e \<Rightarrow> (Inl e, self1)
      | Inr values_fastseq \<Rightarrow>
          let num_values = int (length values_fastseq);
              num_processors = int (length processors)
          in if num_values \<noteq> num_processors
             then (Inl (Exc RuntimeError (arity_message num_values num_processors)), self1)
             else
               (case init_loop processors values_fastseq [] of
                  Inl e \<Rightarrow> (Inl e, self1)
                | Inr result \<Rightarrow>
                    let self2 = self1\<lparr>row := Some (PyTuple result)\<rparr> in
                    (case keymap' of
                       NonDict v \<Rightarrow> (Inl (Exc TypeError ''keymap must be a dict''), self2)
                     | PyDict d \<Rightarrow> (Inr (), self2\<lparr>keymap := Some d\<rparr>))))"

text \<open>
  Calling the type: \<open>tp_new\<close> is \<open>PyType_GenericNew\<close> (set in the module's init function),
  which returns a zero-filled struct, and \<open>tp_init\<close> is \<open>BaseRow_init\<close>. The caller receives
  the object only when \<open>tp_init\<close> returns 0; otherwise the object is released and the
  exception is raised.
\<close>

definition BaseRow_new :: BaseRow where
  "BaseRow_new = \<lparr>parent = None, row = None, keymap = None\<rparr>"

definition BaseRow_call ::
  "metadata \<Rightarrow> processor option list \<Rightarrow> keymap_obj \<Rightarrow> pyobj \<Rightarrow> exc + BaseRow" where
  "BaseRow_call parent' processors keymap' row' =
     (case BaseRow_init BaseRow_new parent' processors keymap' row' of
        (Inl e, self) \<Rightarrow> Inl e
      | (Inr u, self) \<Rightarrow> Inr self)"

text \<open>The outcome of one slot of the loop: the value itself under \<open>None\<close>, the processor's
  result (or exception) otherwise.\<close>

definition processed :: "processor option \<Rightarrow> pyobj \<Rightarrow> exc + pyobj" where
  "processed func v = (case func of None \<Rightarrow> Inr v | Some f \<Rightarrow> f v)"

section \<open>The interpreter and the Python-level collaborators\<close>

text \<open>
  What the C code calls back into, each taken as a function of its arguments:
  \<open>str()\<close> and \<open>hash()\<close> of an object, subscripting of the value tuple (used for slices),
  generic attribute lookup on the row (type attributes, methods, subclass attributes),
  the subclass's \<open>__getstate__\<close> and \<open>__class__\<close>, and the three imports the module performs
  at run time. \<open>import_InvalidRequestError\<close> yields the class that the ambiguous-column
  failure raises.
\<close>

record pyenv =
  PyObject_Str :: "pyobj \<Rightarrow> exc + nat list"
  PyObject_Hash :: "pyobj \<Rightarrow> exc + int"
  PyObject_GetItem :: "pyobj \<Rightarrow> pyobj \<Rightarrow> exc + pyobj"
  PyObject_GenericGetAttr :: "BaseRow \<Rightarrow> nat list \<Rightarrow> exc + pyobj"
  call_getstate :: "BaseRow \<Rightarrow> exc + pyobj"
  getattr_class :: "BaseRow \<Rightarrow> exc + pyobj"
  import_InvalidRequestError :: "exc + exc_type"
  import_rowproxy_reconstructor :: "exc + pyobj"
  import_ResultMetaData :: "exc + unit"

section \<open>Reading a row\<close>

fun py_items :: "pyobj \<Rightarrow> pyobj list option" where
  "py_items (PyTuple xs) = Some xs"
| "py_items (PyList xs) = Some xs"
| "py_items (PyUnicode u) = Some (map (\<lambda>c. PyUnicode [c]) u)"
| "py_items v = None"

definition null_error :: exc where
  "null_error = Exc SystemError ''null argument to internal routine''"

text \<open>\<open>PySequence_Length\<close>, \<open>PySequence_Tuple\<close> and \<open>PySequence_List\<close> check their argument
  for NULL; \<open>PyTuple_GetItem\<close> checks that it is a tuple and that the index is in range.\<close>

definition PySequence_Length :: "pyobj option \<Rightarrow> exc + nat" where
  "PySequence_Length s =
     (case s of
        None \<Rightarrow> Inl null_error
      | Some v \<Rightarrow>
          (case py_items v of
             None \<Rightarrow> Inl (Exc TypeError ''object has no len()'')
           | Some xs \<Rightarrow> Inr (length xs)))"

definition PySequence_Tuple :: "pyobj option \<Rightarrow> exc + pyobj" where
  "PySequence_Tuple s =
     (case s of
        None \<Rightarrow> Inl null_error
      | Some v \<Rightarrow>
          (case py_items v of
             None \<Rightarrow> Inl (Exc TypeError ''object is not iterable'')
           | Some xs \<Rightarrow> Inr (PyTuple xs)))"

definition PySequence_List :: "pyobj option \<Rightarrow> exc + pyobj" where
  "PySequence_List s =
     (case s of
        None \<Rightarrow> Inl null_error
      | Some v \<Rightarrow>
          (case py_items v of
             None \<Rightarrow> Inl (Exc TypeError ''object is not iterable'')
           | Some xs \<Rightarrow> Inr (PyList xs)))"

fun PyTuple_GetItem :: "pyobj \<Rightarrow> int \<Rightarrow> exc + pyobj" where
  "PyTuple_GetItem (PyTuple xs) i =
     (if i < 0 \<or> int (length xs) \<le> i then Inl (Exc IndexError ''tuple index out of range'')
      else Inr (xs ! nat i))"
| "PyTuple_GetItem v i = Inl (Exc SystemError ''bad argument to internal function'')"

text \<open>\<open>PyLong_AsLong\<close>: the value of an integer that fits a C \<open>long\<close>.\<close>

fun PyLong_AsLong :: "pyobj \<Rightarrow> exc + int" where
  "PyLong_AsLong (PyLong n) =
     (if - (2 ^ 63) \<le> n \<and> n < 2 ^ 63 then Inr n
      else Inl (Exc OverflowError ''Python int too large to convert to C long''))"
| "PyLong_AsLong v = Inl (Exc TypeError ''an integer is required'')"

definition BaseRow_valuescollection :: "pyobj option \<Rightarrow> bool \<Rightarrow> exc + pyobj" where
  "BaseRow_valuescollection values astuple =
     (if astuple then PySequence_Tuple values else PySequence_List values)"

definition BaseRow_values_impl :: "BaseRow \<Rightarrow> exc + pyobj" where
  "BaseRow_values_impl self = BaseRow_valuescollection (row self) False"

definition BaseRow_hash :: "pyenv \<Rightarrow> BaseRow \<Rightarrow> exc + int" where
  "BaseRow_hash env self =
     (case row self of None \<Rightarrow> Inl Fault | Some r \<Rightarrow> PyObject_Hash env r)"

text \<open>\<open>BaseRow_iter\<close>: a new iterator over a new tuple of the values; the iterator is
  represented by the items it will yield.\<close>

definition BaseRow_iter :: "BaseRow \<Rightarrow> exc + pyobj list" where
  "BaseRow_iter self =
     (case BaseRow_valuescollection (row self) True of
        Inl e \<Rightarrow> Inl e
      | Inr values \<Rightarrow>
          (case py_items values of
             None \<Rightarrow> Inl (Exc TypeError ''object is not iterable'')
           | Some xs \<Rightarrow> Inr xs))"

definition BaseRow_length :: "BaseRow \<Rightarrow> exc + nat" where
  "BaseRow_length self = PySequence_Length (row self)"

definition BaseRow_getitem :: "BaseRow \<Rightarrow> int \<Rightarrow> exc + pyobj" where
  "BaseRow_getitem self i =
     (case row self of None \<Rightarrow> Inl Fault | Some r \<Rightarrow> PyTuple_GetItem r i)"

text \<open>
  The first step of \<open>BaseRow_getitem_by_object\<close>: the record of the key in the keymap, and
  the answer of the parent's \<open>_key_fallback\<close> (called with the format "O") when the keymap
  has none. \<open>PyDict_GetItem\<close> dereferences the keymap pointer and returns a borrowed
  reference, which the dict keeps alive; \<open>PyObject_CallMethod\<close> checks the parent pointer for
  NULL and returns a new reference. The flag of the result says whether the record is still
  alive once the function has released the reference it received from the fallback.
\<close>

definition lookup_record :: "BaseRow \<Rightarrow> pyobj \<Rightarrow> exc + pyobj \<times> bool" where
  "lookup_record self key =
     (case keymap self of
        None \<Rightarrow> Inl Fault
      | Some km \<Rightarrow>
          (case km key of
             Some record \<Rightarrow> Inr (record, True)
           | None \<Rightarrow>
               (case parent self of
                  None \<Rightarrow> Inl null_error
                | Some p \<Rightarrow> key_fallback p (call_args key))))"

text \<open>An item of a released record can still be read when the interpreter itself keeps it
  alive: \<open>None\<close>, and the integers from -5 to 256.\<close>

fun outlives_record :: "pyobj \<Rightarrow> bool" where
  "outlives_record PyNone = True"
| "outlives_record (PyLong n) = (- 5 \<le> n \<and> n \<le> 256)"
| "outlives_record v = False"

definition ambiguous_message :: "string \<Rightarrow> string" where
  "ambiguous_message cstr_key =
     ''Ambiguous column name '' @ [CHR 0x27] @ format_s200 cstr_key @ [CHR 0x27] @
     '' in result set column descriptions''"

text \<open>
  \<open>BaseRow_getitem_by_object\<close>. Item 0 of the record is read first; a record that came from
  the fallback is then released (\<open>Py_DECREF\<close>), before the index is converted and before item
  2 is read for the ambiguous-column message. Where the record did not survive the release,
  those later reads are reads of a released object.
\<close>

definition BaseRow_getitem_by_object :: "pyenv \<Rightarrow> BaseRow \<Rightarrow> pyobj \<Rightarrow> exc + pyobj" where
  "BaseRow_getitem_by_object env self key =
     (case lookup_record self key of
        Inl e \<Rightarrow> Inl e
      | Inr (record, alive) \<Rightarrow>
          (case PyTuple_GetItem record 0 of
             Inl e \<Rightarrow> Inl e
           | Inr indexobject \<Rightarrow>
               if indexobject = PyNone then
                 (case import_InvalidRequestError env of
                    Inl e \<Rightarrow> Inl e
                  | Inr exception \<Rightarrow>
                      if \<not> alive then Inl Fault
                      else
                        (case PyTuple_GetItem record 2 of
                           Inl e \<Rightarrow> Inl e
                         | Inr cstr_obj \<Rightarrow>
                             (case PyObject_Str env cstr_obj of
                                Inl e \<Rightarrow> Inl e
                              | Inr u \<Rightarrow>
                                  (case PyUnicode_AsASCIIString u of
                                     Inl e \<Rightarrow> Inl e
                                   | Inr cstr_key \<Rightarrow>
                                       Inl (Exc exception (ambiguous_message cstr_key))))))
               else if \<not> alive \<and> \<not> outlives_record indexobject then Inl Fault
               else
                 (case PyLong_AsLong indexobject of
                    Inl e \<Rightarrow> Inl e
                  | Inr index \<Rightarrow> BaseRow_getitem self index)))"

text \<open>\<open>BaseRow_subscript_impl\<close>: an exact integer is a position (a negative one counted from
  the end; \<open>BaseRow_length\<close> answers -1 when it fails), a slice is applied to the value
  tuple, anything else is a key.\<close>

definition BaseRow_subscript_impl :: "pyenv \<Rightarrow> BaseRow \<Rightarrow> pyobj \<Rightarrow> bool \<Rightarrow> exc + pyobj" where
  "BaseRow_subscript_impl env self key asmapping =
     (case key of
        PyLong n \<Rightarrow>
          (case PyLong_AsLong key of
             Inl e \<Rightarrow> Inl e
           | Inr index \<Rightarrow>
               BaseRow_getitem self
                 (if index < 0
                  then index + (case BaseRow_length self of Inl e \<Rightarrow> - 1 | Inr len \<Rightarrow> int len)
                  else index))
      | PySlice start stop step \<Rightarrow>
          (case row self of
             None \<Rightarrow> Inl null_error
           | Some r \<Rightarrow>
               (case PyObject_GetItem env r key of
                  Inl e \<Rightarrow> Inl e
                | Inr values \<Rightarrow> BaseRow_valuescollection (Some values) True))
      | _ \<Rightarrow> BaseRow_getitem_by_object env self key)"

definition BaseRow_subscript :: "pyenv \<Rightarrow> BaseRow \<Rightarrow> pyobj \<Rightarrow> exc + pyobj" where
  "BaseRow_subscript env self key = BaseRow_subscript_impl env self key False"

definition BaseRow_subscript_mapping :: "pyenv \<Rightarrow> BaseRow \<Rightarrow> pyobj \<Rightarrow> exc + pyobj" where
  "BaseRow_subscript_mapping env self key = BaseRow_subscript_impl env self key True"

definition attribute_message :: "string \<Rightarrow> string" where
  "attribute_message cname =
     ''Could not locate column in row for column '' @ [CHR 0x27] @ format_s200 cname @ [CHR 0x27]"

text \<open>
  \<open>BaseRow_getattro\<close>. The AttributeError of the generic lookup is cleared before the keyed
  lookup. The KeyError of the keyed lookup is not: the name is encoded while it is pending,
  and \<open>PyErr_Format\<close> then replaces it by the AttributeError.
\<close>

definition BaseRow_getattro :: "pyenv \<Rightarrow> BaseRow \<Rightarrow> nat list \<Rightarrow> exc + pyobj" where
  "BaseRow_getattro env self name =
     (case PyObject_GenericGetAttr env self name of
        Inr tmp \<Rightarrow> Inr tmp
      | Inl e \<Rightarrow>
          if \<not> PyErr_ExceptionMatches e AttributeError then Inl e
          else
            (case BaseRow_subscript_mapping env self (PyUnicode name) of
               Inr tmp \<Rightarrow> Inr tmp
             | Inl e' \<Rightarrow>
                 if PyErr_ExceptionMatches e' KeyError then
                   (case PyUnicode_AsASCIIString_pending name of
                      Inl e'' \<Rightarrow> Inl e''
                    | Inr err_bytes \<Rightarrow> Inl (Exc AttributeError (attribute_message err_bytes)))
                 else Inl e'))"

section \<open>Pickle support\<close>

text \<open>\<open>BaseRow_reduce\<close>: the triple \<open>(reconstructor, (class, state))\<close>, built from the
  subclass's \<open>__getstate__\<close>, the function imported from \<open>sqlalchemy.engine.result\<close> and
  the object's class.\<close>

definition BaseRow_reduce :: "pyenv \<Rightarrow> BaseRow \<Rightarrow> exc + pyobj" where
  "BaseRow_reduce env self =
     (case call_getstate env self of
        Inl e \<Rightarrow> Inl e
      | Inr state \<Rightarrow>
          (case import_rowproxy_reconstructor env of
             Inl e \<Rightarrow> Inl e
           | Inr reconstructor \<Rightarrow>
               (case getattr_class env self of
                  Inl e \<Rightarrow> Inl e
                | Inr cls \<Rightarrow> Inr (PyTuple [reconstructor, PyTuple [cls, state]]))))"

text \<open>
  A class handed to \<open>safe_rowproxy_reconstructor\<close>: what \<open>cls.__new__(cls)\<close> returns, and what
  \<open>obj.__setstate__(state)\<close> does to the object (the struct afterwards, or the exception).
\<close>

record pyclass =
  cls_new :: "exc + BaseRow"
  cls_setstate :: "BaseRow \<Rightarrow> pyobj \<Rightarrow> exc + BaseRow"

definition reconstructor_message :: string where
  "reconstructor_message =
     ''__setstate__ for BaseRow subclasses must set values for parent, row, and keymap''"

definition safe_rowproxy_reconstructor :: "pyclass \<Rightarrow> pyobj \<Rightarrow> exc + BaseRow" where
  "safe_rowproxy_reconstructor cls state =
     (case cls_new cls of
        Inl e \<Rightarrow> Inl e
      | Inr obj \<Rightarrow>
          (case cls_setstate cls obj state of
             Inl e \<Rightarrow> Inl e
           | Inr obj' \<Rightarrow>
               if parent obj' = None \<or> row obj' = None \<or> keymap obj' = None
               then Inl (Exc RuntimeError reconstructor_message)
               else Inr obj'))"

section \<open>Getters and setters\<close>

definition BaseRow_getparent :: "BaseRow \<Rightarrow> exc + metadata" where
  "BaseRow_getparent self = (case parent self of None \<Rightarrow> Inl Fault | Some p \<Rightarrow> Inr p)"

definition BaseRow_getrow :: "BaseRow \<Rightarrow> exc + pyobj" where
  "BaseRow_getrow self = (case row self of None \<Rightarrow> Inl Fault | Some r \<Rightarrow> Inr r)"

definition BaseRow_getkeymap :: "BaseRow \<Rightarrow> exc + keymap_dict" where
  "BaseRow_getkeymap self = (case keymap self of None \<Rightarrow> Inl Fault | Some k \<Rightarrow> Inr k)"

text \<open>A setter receives the new value, or NULL (\<open>None\<close>) when the attribute is deleted. It
  returns 0 or -1 and may write its field.\<close>

definition BaseRow_setparent ::
  "pyenv \<Rightarrow> BaseRow \<Rightarrow> metadata option \<Rightarrow> (exc + unit) \<times> BaseRow" where
  "BaseRow_setparent env self val =
     (case val of
        None \<Rightarrow> (Inl (Exc TypeError (''Cannot delete the '' @ [CHR 0x27] @ ''parent'' @
                     [CHR 0x27] @ '' attribute'')), self)
      | Some v \<Rightarrow>
          (case import_ResultMetaData env of
             Inl e \<Rightarrow> (Inl e, self)
           | Inr cls \<Rightarrow>
               if \<not> is_ResultMetaData v
               then (Inl (Exc TypeError (''The '' @ [CHR 0x27] @ ''parent'' @ [CHR 0x27] @
                       '' attribute value must be an instance of ResultMetaData'')), self)
               else (Inr (), self\<lparr>parent := Some v\<rparr>)))"

definition BaseRow_setrow :: "BaseRow \<Rightarrow> pyobj option \<Rightarrow> (exc + unit) \<times> BaseRow" where
  "BaseRow_setrow self val =
     (case val of
        None \<Rightarrow> (Inl (Exc TypeError (''Cannot delete the '' @ [CHR 0x27] @ ''row'' @
                     [CHR 0x27] @ '' attribute'')), self)
      | Some v \<Rightarrow>
          if \<not> PySequence_Check v
          then (Inl (Exc TypeError (''The '' @ [CHR 0x27] @ ''row'' @ [CHR 0x27] @
                  '' attribute value must be a sequence'')), self)
          else (Inr (), self\<lparr>row := Some v\<rparr>))"

definition BaseRow_setkeymap :: "BaseRow \<Rightarrow> keymap_obj option \<Rightarrow> (exc + unit) \<times> BaseRow" where
  "BaseRow_setkeymap self val =
     (case val of
        None \<Rightarrow> (Inl (Exc TypeError (''Cannot delete the '' @ [CHR 0x27] @ ''keymap'' @
                     [CHR 0x27] @ '' attribute'')), self)
      | Some (NonDict v) \<Rightarrow>
          (Inl (Exc TypeError (''The '' @ [CHR 0x27] @ ''keymap'' @ [CHR 0x27] @
             '' attribute value must be a dict'')), self)
      | Some (PyDict d) \<Rightarrow> (Inr (), self\<lparr>keymap := Some d\<rparr>))"

section \<open>tuplegetter\<close>

text \<open>
  The entry \<open>_get_by_key_impl_mapping\<close> of \<open>BaseRow_methods\<close> is \<open>BaseRow_subscript_mapping\<close> with
  the flag \<open>METH_O\<close>: called as a method it takes exactly one argument, and the interpreter
  refuses any other number of arguments with TypeError (the wording of that message is the
  interpreter's).
\<close>

definition BaseRow_get_by_key_impl_mapping ::
  "pyenv \<Rightarrow> BaseRow \<Rightarrow> pyobj list \<Rightarrow> exc + pyobj" where
  "BaseRow_get_by_key_impl_mapping env self args =
     (case args of
        [key] \<Rightarrow> BaseRow_subscript_mapping env self key
      | _ \<Rightarrow>
          Inl (Exc TypeError (''_get_by_key_impl_mapping() takes exactly one argument ('' @
                 dec_digits (length args) @ '' given)'')))"

record tuplegetterobject =
  nitems :: int
  item :: "pyobj list"

text \<open>\<open>tuplegetter_new(type, args, kwds)\<close>: keyword arguments are refused; the positional
  arguments, however many, become the keys.\<close>

definition tuplegetter_new :: "pyobj list \<Rightarrow> (nat list \<times> pyobj) list \<Rightarrow> exc + tuplegetterobject" where
  "tuplegetter_new args kwds =
     (if kwds \<noteq> [] then Inl (Exc TypeError ''tuplegetter() takes no keyword arguments'')
      else Inr \<lparr>nitems = int (length args), item = args\<rparr>)"

text \<open>
  The loop of \<open>tuplegetter_call\<close>: for \<open>i\<close> from 0 below \<open>nitems\<close>, the row's method
  \<open>_get_by_key_impl_mapping\<close> is called with the format "O" on the key at position \<open>i\<close> and
  the answer is stored in slot \<open>i\<close> of the result; \<open>result\<close> holds the slots filled so far.
  The method is given as the function from the positional arguments of a call to its
  outcome. A failing call releases the result and returns the exception.
\<close>

function tuplegetter_loop ::
  "(pyobj list \<Rightarrow> exc + pyobj) \<Rightarrow> pyobj list \<Rightarrow> int \<Rightarrow> int \<Rightarrow> pyobj list \<Rightarrow> exc + pyobj list" where
  "tuplegetter_loop get_by_key_impl_mapping keys n i result =
     (if i < n then
        (case get_by_key_impl_mapping (call_args (keys ! nat i)) of
           Inl e \<Rightarrow> Inl e
         | Inr val \<Rightarrow> tuplegetter_loop get_by_key_impl_mapping keys n (i + 1) (result @ [val]))
      else Inr result)"
  by pat_completeness auto
termination
  by (relation "measure (\<lambda>(g, keys, n, i, result). nat (n - i))") auto

declare tuplegetter_loop.simps [simp del]

text \<open>
  \<open>tuplegetter_call(tg, (row,))\<close>, given the method \<open>_get_by_key_impl_mapping\<close> bound to the
  row. The assertions of the function (the keys are a tuple of \<open>nitems\<close> items) are kept:
  where they do not hold the indexing macro would read outside the tuple.
\<close>

definition tuplegetter_call ::
  "tuplegetterobject \<Rightarrow> (pyobj list \<Rightarrow> exc + pyobj) \<Rightarrow> exc + pyobj" where
  "tuplegetter_call tg get_by_key_impl_mapping =
     (if int (length (item tg)) \<noteq> nitems tg then Inl Fault
      else
        (case tuplegetter_loop get_by_key_impl_mapping (item tg) (nitems tg) 0 [] of
           Inl e \<Rightarrow> Inl e
         | Inr result \<Rightarrow> Inr (PyTuple result)))"

section \<open>Comparison of rows\<close>

text \<open>
  \<open>BaseRowType\<close> fills \<open>tp_hash\<close> and leaves \<open>tp_richcompare\<close> empty (0). An object is
  its address and its struct. Where a type has no comparison slot, the interpreter answers
  \<open>==\<close> on two of its objects by comparing the two pointers.
\<close>

type_synonym BaseRow_object = "nat \<times> BaseRow"

definition BaseRowType_tp_richcompare :: "(BaseRow \<Rightarrow> BaseRow \<Rightarrow> bool) option" where
  "BaseRowType_tp_richcompare = None"

definition BaseRow_compare_eq :: "BaseRow_object \<Rightarrow> BaseRow_object \<Rightarrow> bool" where
  "BaseRow_compare_eq v w =
     (case BaseRowType_tp_richcompare of
        None \<Rightarrow> fst v = fst w
      | Some richcompare \<Rightarrow> richcompare (snd v) (snd w))"

section \<open>Reading a row while Python code runs\<close>

text \<open>
  The functions above take what the interpreter and the Python-level collaborators answer
  as functions of their arguments. Python code that runs during a call can do more: it can
  reach the row and use its setters. The functions of the type are therefore embedded a
  second time with the struct threaded through every call into Python code: such a call
  receives the struct and returns its outcome together with the struct as it leaves it, and
  the C code reads the fields again afterwards, as it does in the source.

  The calls are: the hashing and comparing of a key by \<open>PyDict_GetItem\<close> (\<open>__hash__\<close> and
  \<open>__eq__\<close> of the key), the parent's \<open>_key_fallback\<close>, \<open>PyObject_Str\<close> (\<open>__str__\<close>),
  \<open>PyObject_Hash\<close> of the value tuple (\<open>__hash__\<close> of the values), \<open>PyObject_GetItem\<close> with a
  slice (\<open>__index__\<close> of its bounds), \<open>PyObject_GenericGetAttr\<close> (descriptors of a subclass),
  \<open>__getstate__\<close>, \<open>__class__\<close>, and the two imports made while reading
  (\<open>sqlalchemy.exc.InvalidRequestError\<close> and
  \<open>sqlalchemy.engine.result.rowproxy_reconstructor\<close>).
\<close>

type_synonym 'a pycall = "BaseRow \<Rightarrow> (exc + 'a) \<times> BaseRow"

record pycode =
  run_key_hash :: "pyobj \<Rightarrow> unit pycall"
  run_key_fallback :: "metadata \<Rightarrow> pyobj list \<Rightarrow> (pyobj \<times> bool) pycall"
  run_str :: "pyobj \<Rightarrow> nat list pycall"
  run_hash :: "pyobj \<Rightarrow> int pycall"
  run_getitem :: "pyobj \<Rightarrow> pyobj \<Rightarrow> pyobj pycall"
  run_generic_getattr :: "nat list \<Rightarrow> pyobj pycall"
  run_getstate :: "pyobj pycall"
  run_class :: "pyobj pycall"
  run_import_InvalidRequestError :: "exc_type pycall"
  run_import_rowproxy_reconstructor :: "pyobj pycall"

definition BaseRow_length_st :: "nat pycall" where
  "BaseRow_length_st self = (PySequence_Length (row self), self)"

definition BaseRow_getitem_st :: "int \<Rightarrow> pyobj pycall" where
  "BaseRow_getitem_st i self =
     (case row self of None \<Rightarrow> (Inl Fault, self) | Some r \<Rightarrow> (PyTuple_GetItem r i, self))"

definition BaseRow_values_impl_st :: "pyobj pycall" where
  "BaseRow_values_impl_st self = (BaseRow_valuescollection (row self) False, self)"

definition BaseRow_iter_st :: "pyobj list pycall" where
  "BaseRow_iter_st self =
     (case BaseRow_valuescollection (row self) True of
        Inl e \<Rightarrow> (Inl e, self)
      | Inr values \<Rightarrow>
          (case py_items values of
             None \<Rightarrow> (Inl (Exc TypeError ''object is not iterable''), self)
           | Some xs \<Rightarrow> (Inr xs, self)))"

definition BaseRow_hash_st :: "pycode \<Rightarrow> int pycall" where
  "BaseRow_hash_st code self =
     (case row self of None \<Rightarrow> (Inl Fault, self) | Some r \<Rightarrow> run_hash code r self)"

text \<open>
  The keymap pointer is read before \<open>PyDict_GetItem\<close> is called and the parent pointer after
  it has returned. \<open>PyDict_GetItem\<close> hides an exception raised while it hashes or compares
  the key and answers NULL, as for a key that the dict does not have. The dict is taken to
  stay alive during the lookup (the metadata holds it as well).
\<close>

definition lookup_record_st :: "pycode \<Rightarrow> pyobj \<Rightarrow> (pyobj \<times> bool) pycall" where
  "lookup_record_st code key self =
     (case keymap self of
        None \<Rightarrow> (Inl Fault, self)
      | Some km \<Rightarrow>
          (case run_key_hash code key self of
             (hashed, self1) \<Rightarrow>
               (case (case hashed of Inl e \<Rightarrow> None | Inr u \<Rightarrow> km key) of
                  Some record \<Rightarrow> (Inr (record, True), self1)
                | None \<Rightarrow>
                    (case parent self1 of
                       None \<Rightarrow> (Inl null_error, self1)
                     | Some p \<Rightarrow> run_key_fallback code p (call_args key) self1))))"

definition BaseRow_getitem_by_object_st :: "pycode \<Rightarrow> pyobj \<Rightarrow> pyobj pycall" where
  "BaseRow_getitem_by_object_st code key self =
     (case lookup_record_st code key self of
        (Inl e, self1) \<Rightarrow> (Inl e, self1)
      | (Inr (record, alive), self1) \<Rightarrow>
          (case PyTuple_GetItem record 0 of
             Inl e \<Rightarrow> (Inl e, self1)
           | Inr indexobject \<Rightarrow>
               if indexobject = PyNone then
                 (case run_import_InvalidRequestError code self1 of
                    (Inl e, self2) \<Rightarrow> (Inl e, self2)
                  | (Inr exception, self2) \<Rightarrow>
                      if \<not> alive then (Inl Fault, self2)
                      else
                        (case PyTuple_GetItem record 2 of
                           Inl e \<Rightarrow> (Inl e, self2)
                         | Inr cstr_obj \<Rightarrow>
                             (case run_str code cstr_obj self2 of
                                (Inl e, self3) \<Rightarrow> (Inl e, self3)
                              | (Inr u, self3) \<Rightarrow>
                                  (case PyUnicode_AsASCIIString u of
                                     Inl e \<Rightarrow> (Inl e, self3)
                                   | Inr cstr_key \<Rightarrow>
                                       (Inl (Exc exception (ambiguous_message cstr_key)),
                                        self3)))))
               else if \<not> alive \<and> \<not> outlives_record indexobject then (Inl Fault, self1)
               else
                 (case PyLong_AsLong indexobject of
                    Inl e \<Rightarrow> (Inl e, self1)
                  | Inr index \<Rightarrow> BaseRow_getitem_st index self1)))"

definition BaseRow_subscript_impl_st :: "pycode \<Rightarrow> pyobj \<Rightarrow> bool \<Rightarrow> pyobj pycall" where
  "BaseRow_subscript_impl_st code key asmapping self =
     (case key of
        PyLong n \<Rightarrow>
          (case PyLong_AsLong key of
             Inl e \<Rightarrow> (Inl e, self)
           | Inr index \<Rightarrow>
               if index < 0 then
                 (case BaseRow_length_st self of
                    (len, self1) \<Rightarrow>
                      BaseRow_getitem_st
                        (index + (case len of Inl e \<Rightarrow> - 1 | Inr l \<Rightarrow> int l)) self1)
               else BaseRow_getitem_st index self)
      | PySlice start stop step \<Rightarrow>
          (case row self of
             None \<Rightarrow> (Inl null_error, self)
           | Some r \<Rightarrow>
               (case run_getitem code r key self of
                  (Inl e, self1) \<Rightarrow> (Inl e, self1)
                | (Inr values, self1) \<Rightarrow> (BaseRow_valuescollection (Some values) True, self1)))
      | _ \<Rightarrow> BaseRow_getitem_by_object_st code key self)"

definition BaseRow_subscript_st :: "pycode \<Rightarrow> pyobj \<Rightarrow> pyobj pycall" where
  "BaseRow_subscript_st code key self = BaseRow_subscript_impl_st code key False self"

definition BaseRow_subscript_mapping_st :: "pycode \<Rightarrow> pyobj \<Rightarrow> pyobj pycall" where
  "BaseRow_subscript_mapping_st code key self = BaseRow_subscript_impl_st code key True self"

definition BaseRow_getattro_st :: "pycode \<Rightarrow> nat list \<Rightarrow> pyobj pycall" where
  "BaseRow_getattro_st code name self =
     (case run_generic_getattr code name self of
        (Inr tmp, self1) \<Rightarrow> (Inr tmp, self1)
      | (Inl e, self1) \<Rightarrow>
          if \<not> PyErr_ExceptionMatches e AttributeError then (Inl e, self1)
          else
            (case BaseRow_subscript_mapping_st code (PyUnicode name) self1 of
               (Inr tmp, self2) \<Rightarrow> (Inr tmp, self2)
             | (Inl e', self2) \<Rightarrow>
                 if PyErr_ExceptionMatches e' KeyError then
                   (case PyUnicode_AsASCIIString_pending name of
                      Inl e'' \<Rightarrow> (Inl e'', self2)
                    | Inr err_bytes \<Rightarrow>
                        (Inl (Exc AttributeError (attribute_message err_bytes)), self2))
                 else (Inl e', self2)))"

definition BaseRow_reduce_st :: "pycode \<Rightarrow> pyobj pycall" where
  "BaseRow_reduce_st code self =
     (case run_getstate code self of
        (Inl e, self1) \<Rightarrow> (Inl e, self1)
      | (Inr state, self1) \<Rightarrow>
          (case run_import_rowproxy_reconstructor code self1 of
             (Inl e, self2) \<Rightarrow> (Inl e, self2)
           | (Inr reconstructor, self2) \<Rightarrow>
               (case run_class code self2 of
                  (Inl e, self3) \<Rightarrow> (Inl e, self3)
                | (Inr cls, self3) \<Rightarrow>
                    (Inr (PyTuple [reconstructor, PyTuple [cls, state]]), self3))))"

definition BaseRow_getparent_st :: "metadata pycall" where
  "BaseRow_getparent_st self =
     (case parent self of None \<Rightarrow> (Inl Fault, self) | Some p \<Rightarrow> (Inr p, self))"

definition BaseRow_getrow_st :: "pyobj pycall" where
  "BaseRow_getrow_st self =
     (case row self of None \<Rightarrow> (Inl Fault, self) | Some r \<Rightarrow> (Inr r, self))"

definition BaseRow_getkeymap_st :: "keymap_dict pycall" where
  "BaseRow_getkeymap_st self =
     (case keymap self of None \<Rightarrow> (Inl Fault, self) | Some k \<Rightarrow> (Inr k, self))"

text \<open>Python code that leaves the row alone: every call returns the struct it received.\<close>

definition leaves_row_alone :: "pycode \<Rightarrow> bool" where
  "leaves_row_alone code =
     ((\<forall>key s. snd (run_key_hash code key s) = s) \<and>
      (\<forall>p args s. snd (run_key_fallback code p args s) = s) \<and>
      (\<forall>v s. snd (run_str code v s) = s) \<and>
      (\<forall>v s. snd (run_hash code v s) = s) \<and>
      (\<forall>v key s. snd (run_getitem code v key s) = s) \<and>
      (\<forall>name s. snd (run_generic_getattr code name s) = s) \<and>
      (\<forall>s. snd (run_getstate code s) = s) \<and>
      (\<forall>s. snd (run_class code s) = s) \<and>
      (\<forall>s. snd (run_import_InvalidRequestError code s) = s) \<and>
      (\<forall>s. snd (run_import_rowproxy_reconstructor code s) = s))"

text \<open>The collaborators of the first embedding, as Python code that leaves the row alone.
  A key of the first embedding is hashed and compared without an exception.\<close>

definition pure_code :: "pyenv \<Rightarrow> pycode" where
  "pure_code env =
     \<lparr>run_key_hash = (\<lambda>key s. (Inr (), s)),
      run_key_fallback = (\<lambda>p args s. (key_fallback p args, s)),
      run_str = (\<lambda>v s. (PyObject_Str env v, s)),
      run_hash = (\<lambda>v s. (PyObject_Hash env v, s)),
      run_getitem = (\<lambda>v key s. (PyObject_GetItem env v key, s)),
      run_generic_getattr = (\<lambda>name s. (PyObject_GenericGetAttr env s name, s)),
      run_getstate = (\<lambda>s. (call_getstate env s, s)),
      run_class = (\<lambda>s. (getattr_class env s, s)),
      run_import_InvalidRequestError = (\<lambda>s. (import_InvalidRequestError env, s)),
      run_import_rowproxy_reconstructor = (\<lambda>s. (import_rowproxy_reconstructor env, s))\<rparr>"

section \<open>The operations of the type\<close>

text \<open>
  Everything \<open>BaseRowType\<close> lets a caller do with a constructed row: the sequence and
  mapping slots, \<open>tp_hash\<close>, \<open>tp_iter\<close>, \<open>tp_getattro\<close>, \<open>tp_init\<close> (reachable as \<open>__init__\<close>),
  the methods of \<open>BaseRow_methods\<close>, the getters and setters of \<open>BaseRow_getseters\<close>
  (\<open>_parent\<close>, \<open>_data\<close>, \<open>_keymap\<close>), and the comparison \<open>==\<close> of the row (the object at the
  given address) with another object of the type, which the interpreter answers itself.
  An operation yields its outcome and the struct as it leaves it.
\<close>

datatype row_op =
    Op_length
  | Op_item int
  | Op_subscript pyobj
  | Op_subscript_mapping pyobj
  | Op_getattro "nat list"
  | Op_hash
  | Op_iter
  | Op_values_impl
  | Op_reduce
  | Op_getparent
  | Op_getrow
  | Op_getkeymap
  | Op_compare_eq nat BaseRow_object
  | Op_init metadata "processor option list" keymap_obj pyobj
  | Op_setparent "metadata option"
  | Op_setrow "pyobj option"
  | Op_setkeymap "keymap_obj option"

datatype row_value =
    V_object pyobj
  | V_size nat
  | V_hash int
  | V_iterator "pyobj list"
  | V_metadata metadata
  | V_dict keymap_dict
  | V_bool bool
  | V_done

text \<open>The operations whose C function assigns to a field of the struct: \<open>__init__\<close> called
  again on the object, and the three setters.\<close>

fun writes_struct :: "row_op \<Rightarrow> bool" where
  "writes_struct (Op_init p procs km r) = True"
| "writes_struct (Op_setparent v) = True"
| "writes_struct (Op_setrow v) = True"
| "writes_struct (Op_setkeymap v) = True"
| "writes_struct op = False"

definition returned :: "('a \<Rightarrow> row_value) \<Rightarrow> (exc + 'a) \<times> BaseRow \<Rightarrow> (exc + row_value) \<times> BaseRow" where
  "returned wrap outcome = (map_sum id wrap (fst outcome), snd outcome)"

fun BaseRow_operation ::
  "pyenv \<Rightarrow> pycode \<Rightarrow> row_op \<Rightarrow> BaseRow \<Rightarrow> (exc + row_value) \<times> BaseRow" where
  "BaseRow_operation env code Op_length self = returned V_size (BaseRow_length_st self)"
| "BaseRow_operation env code (Op_item i) self = returned V_object (BaseRow_getitem_st i self)"
| "BaseRow_operation env code (Op_subscript key) self =
     returned V_object (BaseRow_subscript_st code key self)"
| "BaseRow_operation env code (Op_subscript_mapping key) self =
     returned V_object (BaseRow_subscript_mapping_st code key self)"
| "BaseRow_operation env code (Op_getattro name) self =
     returned V_object (BaseRow_getattro_st code name self)"
| "BaseRow_operation env code Op_hash self = returned V_hash (BaseRow_hash_st code self)"
| "BaseRow_operation env code Op_iter self = returned V_iterator (BaseRow_iter_st self)"
| "BaseRow_operation env code Op_values_impl self =
     returned V_object (BaseRow_values_impl_st self)"
| "BaseRow_operation env code Op_reduce self = returned V_object (BaseRow_reduce_st code self)"
| "BaseRow_operation env code Op_getparent self = returned V_metadata (BaseRow_getparent_st self)"
| "BaseRow_operation env code Op_getrow self = returned V_object (BaseRow_getrow_st self)"
| "BaseRow_operation env code Op_getkeymap self = returned V_dict (BaseRow_getkeymap_st self)"
| "BaseRow_operation env code (Op_compare_eq addr other) self =
     (Inr (V_bool (BaseRow_compare_eq (addr, self) other)), self)"
| "BaseRow_operation env code (Op_init p procs km r) self =
     returned (\<lambda>u. V_done) (BaseRow_init self p procs km r)"
| "BaseRow_operation env code (Op_setparent v) self =
     returned (\<lambda>u. V_done) (BaseRow_setparent env self v)"
| "BaseRow_operation env code (Op_setrow v) self =
     returned (\<lambda>u. V_done) (BaseRow_setrow self v)"
| "BaseRow_operation env code (Op_setkeymap v) self =
     returned (\<lambda>u. V_done) (BaseRow_setkeymap self v)"

section \<open>Sample objects\<close>

definition sample_metadata :: metadata where
  "sample_metadata =
     \<lparr>md_id = 0, key_fallback = (\<lambda>args. Inl (Exc KeyError ''no such column'')),
      is_ResultMetaData = True\<rparr>"

definition other_metadata :: metadata where
  "other_metadata =
     \<lparr>md_id = 1,
      key_fallback = (\<lambda>args. case args of
                          [key] \<Rightarrow> Inr (PyTuple [PyLong 0, key, key], False)
                        | _ \<Rightarrow> Inl (Exc TypeError ''_key_fallback() got unexpected arguments'')),
      is_ResultMetaData = True\<rparr>"

definition sample_env :: pyenv where
  "sample_env =
     \<lparr>PyObject_Str = (\<lambda>v. case v of PyUnicode u \<Rightarrow> Inr u | _ \<Rightarrow> Inr [63]),
      PyObject_Hash = (\<lambda>v. case v of PyTuple xs \<Rightarrow> Inr (int (length xs))
                                | _ \<Rightarrow> Inl (Exc TypeError ''unhashable type'')),
      PyObject_GetItem = (\<lambda>v key. case key of PySlice PyNone PyNone PyNone \<Rightarrow> Inr v
                                    | _ \<Rightarrow> Inl (Exc TypeError ''unsupported subscript'')),
      PyObject_GenericGetAttr = (\<lambda>self name. Inl (Exc AttributeError ''no attribute'')),
      call_getstate = (\<lambda>self. Inr PyNone),
      getattr_class = (\<lambda>self. Inr (PyOpaque 1)),
      import_InvalidRequestError = Inr InvalidRequestError,
      import_rowproxy_reconstructor = Inr (PyOpaque 0),
      import_ResultMetaData = Inr ()\<rparr>"

text \<open>A processor that wraps its argument in a one-item list, and one that always fails.\<close>

definition wrap_processor :: processor where
  "wrap_processor v = Inr (PyList [v])"

definition failing_processor :: processor where
  "failing_processor v = Inl (Exc (Derived RuntimeError 7) ''cannot convert'')"

text \<open>The text whose code points are the bytes of an ASCII literal.\<close>

definition ascii_text :: "string \<Rightarrow> nat list" where
  "ascii_text s = map of_char s"

text \<open>A keymap with a plain column \<open>x\<close> at position 0, an ambiguous column \<open>y\<close>, and an
  ambiguous column whose name is the single non-ASCII character U+00E9.\<close>

definition sample_keymap :: keymap_dict where
  "sample_keymap =
     [PyUnicode (ascii_text ''x'') \<mapsto> PyTuple [PyLong 0, PyOpaque 5, PyUnicode (ascii_text ''x'')],
      PyUnicode (ascii_text ''y'') \<mapsto> PyTuple [PyNone, PyOpaque 6, PyUnicode (ascii_text ''y'')],
      PyUnicode [233] \<mapsto> PyTuple [PyNone, PyOpaque 7, PyUnicode [233]]]"

definition sample_row :: BaseRow where
  "sample_row =
     \<lparr>parent = Some sample_metadata, row = Some (PyTuple [PyLong 10, PyLong 20]),
      keymap = Some sample_keymap\<rparr>"

definition other_row :: BaseRow where
  "other_row =
     \<lparr>parent = Some other_metadata, row = Some (PyTuple [PyLong 10, PyLong 20]),
      keymap = Some Map.empty\<rparr>"

text \<open>A class whose \<open>__setstate__\<close> restores the value tuple only.\<close>

definition partial_class :: pyclass where
  "partial_class =
     \<lparr>cls_new = Inr BaseRow_new,
      cls_setstate = (\<lambda>obj state. Inr (obj\<lparr>row := Some state\<rparr>))\<rparr>"

text \<open>A keymap whose two ambiguous columns, one with a non-ASCII name, carry the ASCII text
  \<open>z\<close> in their records.\<close>

definition alias_keymap :: keymap_dict where
  "alias_keymap =
     [PyUnicode [234] \<mapsto> PyTuple [PyNone, PyOpaque 8, PyUnicode (ascii_text ''z'')],
      PyUnicode (ascii_text ''q'') \<mapsto> PyTuple [PyNone, PyOpaque 9, PyUnicode (ascii_text ''z'')]]"

definition alias_row :: BaseRow where
  "alias_row =
     \<lparr>parent = Some sample_metadata, row = Some (PyTuple [PyLong 10, PyLong 20]),
      keymap = Some alias_keymap\<rparr>"

text \<open>Python code whose \<open>__str__\<close> uses the setter of \<open>_data\<close> on the row it is called for.\<close>

definition meddling_code :: pycode where
  "meddling_code =
     (pure_code sample_env)
       \<lparr>run_str := (\<lambda>v s. (PyObject_Str sample_env v, s\<lparr>row := Some (PyList [])\<rparr>))\<rparr>"

section \<open>Auxiliary facts\<close>

lemmas char_eval = char_of_def bit_Suc_0_iff

lemma char_of_not_NUL: "0 < c \<Longrightarrow> c < 128 \<Longrightarrow> char_of (c::nat) \<noteq> CHR 0x00"
proof
  assume c: "0 < c" "c < 128" and "char_of c = CHR 0x00"
  then have "of_char (char_of c) = (of_char (CHR 0x00) :: nat)" by simp
  then have "c mod 256 = 0" by simp
  with c show False by simp
qed

lemma format_s200_short:
  fixes u :: "nat list"
  assumes len: "length u \<le> 200" and ok: "list_all (\<lambda>c. 0 < c \<and> c < 128) u"
  shows "format_s200 (map char_of u) = map char_of u"
proof -
  have tw: "takeWhile (\<lambda>c. c \<noteq> CHR 0x00) (map char_of u) = map char_of u"
    using ok by (induction u) (simp_all add: char_of_not_NUL)
  have "take 200 (map char_of u) = map char_of u"
    using len by simp
  then show ?thesis
    unfolding format_s200_def tw .
qed

lemma sublist_ambiguous_message: "sublist (format_s200 s) (ambiguous_message s)"
  unfolding ambiguous_message_def
  by (metis sublist_appendI append.assoc)

lemma sublist_attribute_message: "sublist (format_s200 s) (attribute_message s)"
  unfolding attribute_message_def
  by (metis sublist_appendI append.assoc)

lemma c_int_small: "0 \<le> n \<Longrightarrow> n < 2 ^ 31 \<Longrightarrow> c_int n = n"
  unfolding c_int_def
  by (simp add: signed_take_bit_int_eq_self sint_sbintrunc')

subsection \<open>The loop of BaseRow\_init\<close>

lemma init_loop_step:
  "init_loop (func # fs) (v # vs) acc =
     (case processed func v of Inl e \<Rightarrow> Inl e | Inr pv \<Rightarrow> init_loop fs vs (acc @ [pv]))"
  by (simp add: processed_def split: option.splits sum.splits)

lemma init_loop_success:
  "length fs = length vs \<Longrightarrow>
   \<forall>i<length vs. \<exists>v. processed (fs ! i) (vs ! i) = Inr v \<Longrightarrow>
   \<exists>rs. init_loop fs vs acc = Inr (acc @ rs) \<and> length rs = length vs \<and>
        (\<forall>i<length vs. processed (fs ! i) (vs ! i) = Inr (rs ! i))"
proof (induction fs arbitrary: vs acc)
  case Nil
  then show ?case by simp
next
  case (Cons func funcptr)
  then obtain val valueptr where vs: "vs = val # valueptr"
    by (cases vs) auto
  from Cons.prems(2) vs obtain pv where pv: "processed func val = Inr pv"
    by fastforce
  have len: "length funcptr = length valueptr" using Cons.prems(1) vs by simp
  have rest: "\<forall>i<length valueptr. \<exists>v. processed (funcptr ! i) (valueptr ! i) = Inr v"
    using Cons.prems(2) vs by fastforce
  from Cons.IH [OF len rest, of "acc @ [pv]"]
  obtain rs where rs: "init_loop funcptr valueptr (acc @ [pv]) = Inr ((acc @ [pv]) @ rs)"
      "length rs = length valueptr"
      "\<forall>i<length valueptr. processed (funcptr ! i) (valueptr ! i) = Inr (rs ! i)"
    by blast
  have "init_loop (func # funcptr) vs acc = Inr (acc @ (pv # rs))"
    using pv rs(1) vs by (simp add: init_loop_step del: init_loop.simps)
  moreover have "length (pv # rs) = length vs" using rs(2) vs by simp
  moreover have "\<forall>i<length vs. processed ((func # funcptr) ! i) (vs ! i) = Inr ((pv # rs) ! i)"
    using pv rs(3) vs by (auto simp: nth_Cons split: nat.splits)
  ultimately show ?case by blast
qed

lemma init_loop_failure:
  "length fs = length vs \<Longrightarrow> i < length vs \<Longrightarrow> processed (fs ! i) (vs ! i) = Inl e \<Longrightarrow>
   \<forall>j<i. \<exists>v. processed (fs ! j) (vs ! j) = Inr v \<Longrightarrow>
   init_loop fs vs acc = Inl e"
proof (induction fs arbitrary: vs acc i)
  case Nil
  then show ?case by simp
next
  case (Cons func funcptr)
  then obtain val valueptr where vs: "vs = val # valueptr"
    by (cases vs) auto
  show ?case
  proof (cases i)
    case 0
    with Cons.prems(3) vs show ?thesis by (simp add: init_loop_step del: init_loop.simps)
  next
    case (Suc k)
    with Cons.prems(4) vs obtain pv where pv: "processed func val = Inr pv" by fastforce
    have k: "k < length valueptr" "processed (funcptr ! k) (valueptr ! k) = Inl e"
      using Cons.prems(2,3) Suc vs by simp_all
    have len: "length funcptr = length valueptr" using Cons.prems(1) vs by simp
    have before: "\<forall>j<k. \<exists>v. processed (funcptr ! j) (valueptr ! j) = Inr v"
      using Cons.prems(4) Suc vs by fastforce
    have "init_loop funcptr valueptr (acc @ [pv]) = Inl e"
      by (rule Cons.IH [OF len k before])
    with pv vs show ?thesis by (simp add: init_loop_step del: init_loop.simps)
  qed
qed

lemma processed_succeeds_iff:
  "(\<exists>v. processed func x = Inr v) = (\<forall>f. func = Some f \<longrightarrow> (\<exists>v. f x = Inr v))"
  by (cases func) (simp_all add: processed_def)

lemma processed_value_iff:
  "(processed func x = Inr y) =
     ((func = None \<longrightarrow> y = x) \<and> (\<forall>f. func = Some f \<longrightarrow> f x = Inr y))"
  by (cases func) (auto simp: processed_def)

lemma BaseRow_call_equal_lengths:
  "length processors = length rawValues \<Longrightarrow>
   BaseRow_call md processors (PyDict d) (PyList rawValues) =
     (case init_loop processors rawValues [] of
        Inl e \<Rightarrow> Inl e
      | Inr vs \<Rightarrow> Inr \<lparr>parent = Some md, row = Some (PyTuple vs), keymap = Some d\<rparr>)"
  by (simp add: BaseRow_call_def BaseRow_init_def BaseRow_new_def split: sum.splits)

subsection \<open>Ambiguous keys\<close>

lemma lookup_record_hit:
  "keymap self = Some km \<Longrightarrow> km key = Some record \<Longrightarrow>
   lookup_record self key = Inr (record, True)"
  by (simp add: lookup_record_def)

lemma ambiguous_never_returns:
  "lookup_record self key = Inr (PyTuple (PyNone # items), alive) \<Longrightarrow>
   BaseRow_getitem_by_object env self key \<noteq> Inr v"
  by (simp add: BaseRow_getitem_by_object_def split: sum.splits)

lemma ambiguous_outcome:
  "keymap self = Some km \<Longrightarrow>
   km key = Some (PyTuple (PyNone # canonical # context # rest)) \<Longrightarrow>
   import_InvalidRequestError env = Inr cls \<Longrightarrow>
   PyObject_Str env context = Inr u \<Longrightarrow>
   BaseRow_getitem_by_object env self key =
     (case PyUnicode_AsASCIIString u of
        Inl e \<Rightarrow> Inl e
      | Inr cstr_key \<Rightarrow> Inl (Exc cls (ambiguous_message cstr_key)))"
  by (simp add: BaseRow_getitem_by_object_def lookup_record_hit)

lemma sample_keymap_y:
  "sample_keymap (PyUnicode (ascii_text ''y'')) =
     Some (PyTuple [PyNone, PyOpaque 6, PyUnicode (ascii_text ''y'')])"
  by (simp add: sample_keymap_def ascii_text_def)

lemma sample_keymap_e:
  "sample_keymap (PyUnicode [233]) = Some (PyTuple [PyNone, PyOpaque 7, PyUnicode [233]])"
  by (simp add: sample_keymap_def ascii_text_def)

lemma alias_keymap_e:
  "alias_keymap (PyUnicode [234]) =
     Some (PyTuple [PyNone, PyOpaque 8, PyUnicode (ascii_text ''z'')])"
  by (simp add: alias_keymap_def ascii_text_def)

lemma alias_keymap_q:
  "alias_keymap (PyUnicode (ascii_text ''q'')) =
     Some (PyTuple [PyNone, PyOpaque 9, PyUnicode (ascii_text ''z'')])"
  by (simp add: alias_keymap_def ascii_text_def)

lemma alias_lookup:
  "k = PyUnicode [234] \<or> k = PyUnicode (ascii_text ''q'') \<Longrightarrow>
   BaseRow_getitem_by_object sample_env alias_row k =
     Inl (Exc InvalidRequestError
       (''Ambiguous column name '' @ [CHR 0x27] @ ''z'' @ [CHR 0x27] @
        '' in result set column descriptions''))"
  by (auto simp: BaseRow_getitem_by_object_def lookup_record_def alias_row_def alias_keymap_def
      sample_env_def ascii_text_def PyUnicode_AsASCIIString_def ambiguous_message_def
      format_s200_def char_eval)

lemma hex_fixed_2: "hex_fixed 2 n = [hex_digit (n div 16), hex_digit n]"
  by (simp add: numeral_2_eq_2)

lemma ascii_encode_error_e9:
  "ascii_encode_error [233] =
     Exc UnicodeEncodeError
       ([CHR 0x27] @ ''ascii'' @ [CHR 0x27] @ '' codec can'' @ [CHR 0x27] @
        ''t encode character '' @ [CHR 0x27, CHR 0x5C] @ ''xe9'' @ [CHR 0x27] @
        '' in position 0: ordinal not in range(128)'')"
  by (simp add: ascii_encode_error_def badchar_repr_def hex_fixed_2 hex_digit_def
      dec_digits.simps char_eval)

lemma ascii_encode_error_class: "\<exists>m. ascii_encode_error u = Exc UnicodeEncodeError m"
  by (simp add: ascii_encode_error_def Let_def)

subsection \<open>Arity check\<close>

lemma BaseRow_init_arity_mismatch:
  "length processors \<noteq> length rawValues \<Longrightarrow>
   BaseRow_init self md processors km (PyList rawValues) =
     (Inl (Exc RuntimeError
        (arity_message (int (length rawValues)) (int (length processors)))),
      self\<lparr>parent := Some md\<rparr>)"
  by (simp add: BaseRow_init_def)

lemma BaseRow_call_arity_mismatch:
  "length processors \<noteq> length rawValues \<Longrightarrow>
   BaseRow_call md processors km (PyList rawValues) =
     Inl (Exc RuntimeError (arity_message (int (length rawValues)) (int (length processors))))"
  by (simp add: BaseRow_call_def BaseRow_init_arity_mismatch)

lemma arity_message_small:
  "n < 2 ^ 31 \<Longrightarrow> m < 2 ^ 31 \<Longrightarrow>
   arity_message (int n) (int m) =
     ''number of values in row ('' @ dec_digits n @
     '') differ from number of column processors ('' @ dec_digits m @ '')''"
proof -
  assume n: "n < 2 ^ 31" and m: "m < 2 ^ 31"
  have "int n < 2 ^ 31" "int m < 2 ^ 31"
    using n m by (simp_all flip: of_nat_less_iff)
  then have "c_int (int n) = int n" "c_int (int m) = int m"
    by (simp_all add: c_int_small)
  then show ?thesis
    by (simp add: arity_message_def format_d_def)
qed

subsection \<open>Attribute access and keyed access on the sample row\<close>

lemma subscript_mapping_text:
  "BaseRow_subscript_mapping env self (PyUnicode name) =
     BaseRow_getitem_by_object env self (PyUnicode name)"
  by (simp add: BaseRow_subscript_mapping_def BaseRow_subscript_impl_def)



lemma method_one_argument:
  "BaseRow_get_by_key_impl_mapping env self [k] = BaseRow_subscript_mapping env self k"
  by (simp add: BaseRow_get_by_key_impl_mapping_def)

lemma sample_generic:
  "PyObject_GenericGetAttr sample_env sample_row name = Inl (Exc AttributeError ''no attribute'')"
  by (simp add: sample_env_def)


lemma sample_lookup_missing_e:
  "BaseRow_getitem_by_object sample_env sample_row (PyUnicode [232]) =
     Inl (Exc KeyError ''no such column'')"
  by (simp add: BaseRow_getitem_by_object_def lookup_record_def sample_row_def
      sample_keymap_def sample_metadata_def ascii_text_def)


lemma sample_get_x:
  "BaseRow_subscript_mapping sample_env sample_row (PyUnicode (ascii_text ''x'')) = Inr (PyLong 10)"
  by (simp add: BaseRow_subscript_mapping_def BaseRow_subscript_impl_def
      BaseRow_getitem_by_object_def lookup_record_def BaseRow_getitem_def
      sample_row_def sample_keymap_def ascii_text_def)



text \<open>What \<open>BaseRow_getattro\<close> does once generic lookup has failed with AttributeError: for
  an ASCII name a KeyError of the keyed lookup becomes the AttributeError that holds the name.\<close>

lemma getattro_outcomes:
  assumes "PyObject_GenericGetAttr env self name = Inl e0"
    and "PyErr_ExceptionMatches e0 AttributeError"
  shows
    "(\<forall>v. BaseRow_getitem_by_object env self (PyUnicode name) = Inr v \<longrightarrow>
          BaseRow_getattro env self name = Inr v) \<and>
     (\<forall>e. BaseRow_getitem_by_object env self (PyUnicode name) = Inl e \<and>
          \<not> PyErr_ExceptionMatches e KeyError \<longrightarrow>
          BaseRow_getattro env self name = Inl e) \<and>
     (\<forall>e. BaseRow_getitem_by_object env self (PyUnicode name) = Inl e \<and>
          PyErr_ExceptionMatches e KeyError \<and> list_all (\<lambda>c. c < 128) name \<longrightarrow>
          BaseRow_getattro env self name =
            Inl (Exc AttributeError (attribute_message (map char_of name)))) \<and>
     (\<forall>e. BaseRow_getitem_by_object env self (PyUnicode name) = Inl e \<and>
          PyErr_ExceptionMatches e KeyError \<and> \<not> list_all (\<lambda>c. c < 128) name \<longrightarrow>
          BaseRow_getattro env self name = Inl (Exc SystemError pending_exception_message))"
  using assms
  by (auto simp: BaseRow_getattro_def subscript_mapping_text PyUnicode_AsASCIIString_pending_def)

subsection \<open>The loop of tuplegetter\_call\<close>







lemma tuplegetter_one_key:
  "tuplegetter_call \<lparr>nitems = 1, item = [k]\<rparr> get =
     (case get (call_args k) of Inl e \<Rightarrow> Inl e | Inr v \<Rightarrow> Inr (PyTuple [v]))"
  by (simp add: tuplegetter_call_def tuplegetter_loop.simps [of _ _ _ 0]
      tuplegetter_loop.simps [of _ _ _ 1] split: sum.splits)

text \<open>A key that is a tuple is taken apart by the call: the one-item tuple \<open>(x,)\<close> is looked
  up as \<open>x\<close>, and a tuple of two items is refused by the method.\<close>

lemma tuplegetter_tuple_key:
  "tuplegetter_call \<lparr>nitems = 1, item = [PyTuple [PyUnicode (ascii_text ''x'')]]\<rparr>
       (BaseRow_get_by_key_impl_mapping sample_env sample_row) =
     Inr (PyTuple [PyLong 10]) \<and>
   tuplegetter_call
       \<lparr>nitems = 1, item = [PyTuple [PyUnicode (ascii_text ''a''), PyUnicode (ascii_text ''b'')]]\<rparr>
       (BaseRow_get_by_key_impl_mapping sample_env sample_row) =
     Inl (Exc TypeError ''_get_by_key_impl_mapping() takes exactly one argument (2 given)'')"
  by (simp add: tuplegetter_one_key method_one_argument sample_get_x
      BaseRow_get_by_key_impl_mapping_def dec_digits.simps char_eval)

subsection \<open>The two embeddings agree\<close>

lemma pure_code_calls:
  "run_generic_getattr (pure_code env) name s = (PyObject_GenericGetAttr env s name, s)"
  "run_getstate (pure_code env) s = (call_getstate env s, s)"
  "run_class (pure_code env) s = (getattr_class env s, s)"
  "run_hash (pure_code env) v s = (PyObject_Hash env v, s)"
  "run_str (pure_code env) v s = (PyObject_Str env v, s)"
  "run_getitem (pure_code env) v key s = (PyObject_GetItem env v key, s)"
  "run_key_fallback (pure_code env) p args s = (key_fallback p args, s)"
  "run_key_hash (pure_code env) key s = (Inr (), s)"
  "run_import_InvalidRequestError (pure_code env) s = (import_InvalidRequestError env, s)"
  "run_import_rowproxy_reconstructor (pure_code env) s = (import_rowproxy_reconstructor env, s)"
  by (simp_all add: pure_code_def)

lemma leaves_row_alone_pure: "leaves_row_alone (pure_code env)"
  by (simp add: leaves_row_alone_def pure_code_def)

lemma getitem_st_pure: "BaseRow_getitem_st i self = (BaseRow_getitem self i, self)"
  by (simp add: BaseRow_getitem_st_def BaseRow_getitem_def split: option.splits)

lemma length_st_pure: "BaseRow_length_st self = (BaseRow_length self, self)"
  by (simp add: BaseRow_length_st_def BaseRow_length_def)

lemma lookup_record_st_pure:
  "lookup_record_st (pure_code env) key self = (lookup_record self key, self)"
  by (simp add: lookup_record_st_def lookup_record_def pure_code_calls split: option.splits)

lemma getitem_by_object_st_pure:
  "BaseRow_getitem_by_object_st (pure_code env) key self =
     (BaseRow_getitem_by_object env self key, self)"
  unfolding BaseRow_getitem_by_object_st_def BaseRow_getitem_by_object_def
    lookup_record_st_pure
  by (simp add: getitem_st_pure pure_code_calls split: sum.splits prod.splits)

lemma subscript_impl_st_pure:
  "BaseRow_subscript_impl_st (pure_code env) key asmapping self =
     (BaseRow_subscript_impl env self key asmapping, self)"
  by (cases key)
     (simp_all add: BaseRow_subscript_impl_st_def BaseRow_subscript_impl_def
        getitem_by_object_st_pure getitem_st_pure length_st_pure pure_code_calls
        split: sum.splits option.splits)

lemma getattro_st_pure:
  "BaseRow_getattro_st (pure_code env) name self = (BaseRow_getattro env self name, self)"
  by (simp add: BaseRow_getattro_st_def BaseRow_getattro_def BaseRow_subscript_mapping_st_def
      BaseRow_subscript_mapping_def subscript_impl_st_pure pure_code_calls
      split: sum.splits)

lemma hash_st_pure: "BaseRow_hash_st (pure_code env) self = (BaseRow_hash env self, self)"
  by (simp add: BaseRow_hash_st_def BaseRow_hash_def pure_code_calls split: option.splits)

lemma reduce_st_pure:
  "BaseRow_reduce_st (pure_code env) self = (BaseRow_reduce env self, self)"
  by (simp add: BaseRow_reduce_st_def BaseRow_reduce_def pure_code_calls split: sum.splits)

subsection \<open>Reads write nothing themselves\<close>

lemma quiet_call:
  assumes "leaves_row_alone code"
  shows "run_key_fallback code p args s = (r1, s1) \<Longrightarrow> s1 = s"
    and "run_str code v s = (r2, s2) \<Longrightarrow> s2 = s"
    and "run_hash code v s = (r3, s3) \<Longrightarrow> s3 = s"
    and "run_getitem code v key s = (r4, s4) \<Longrightarrow> s4 = s"
    and "run_generic_getattr code name s = (r5, s5) \<Longrightarrow> s5 = s"
    and "run_getstate code s = (r6, s6) \<Longrightarrow> s6 = s"
    and "run_class code s = (r7, s7) \<Longrightarrow> s7 = s"
    and "run_key_hash code key s = (r8, s8) \<Longrightarrow> s8 = s"
    and "run_import_InvalidRequestError code s = (r9, s9) \<Longrightarrow> s9 = s"
    and "run_import_rowproxy_reconstructor code s = (r10, s10) \<Longrightarrow> s10 = s"
  using assms unfolding leaves_row_alone_def
  by (metis snd_conv)+

lemma getitem_st_keeps: "snd (BaseRow_getitem_st i self) = self"
  by (simp add: BaseRow_getitem_st_def split: option.splits)

lemma lookup_record_st_keeps:
  assumes "leaves_row_alone code"
  shows "snd (lookup_record_st code key self) = self"
proof -
  obtain h s1 where hk: "run_key_hash code key self = (h, s1)"
    by (cases "run_key_hash code key self")
  then have s1: "s1 = self" by (rule quiet_call(8) [OF assms])
  have fb: "snd (run_key_fallback code p args self) = self" for p args
    using assms by (simp add: leaves_row_alone_def)
  show ?thesis
    unfolding lookup_record_st_def
    by (simp add: hk s1 fb split: option.splits)
qed

lemma getitem_by_object_st_keeps:
  assumes "leaves_row_alone code"
  shows "snd (BaseRow_getitem_by_object_st code key self) = self"
proof -
  obtain r s1 where l: "lookup_record_st code key self = (r, s1)"
    by (cases "lookup_record_st code key self")
  with lookup_record_st_keeps [OF assms, of key self] have s1: "s1 = self" by simp
  obtain r' s2 where i: "run_import_InvalidRequestError code self = (r', s2)"
    by (cases "run_import_InvalidRequestError code self")
  then have s2: "s2 = self" by (rule quiet_call(9) [OF assms])
  show ?thesis
    unfolding BaseRow_getitem_by_object_st_def l s1
    by (auto simp: i s2 getitem_st_keeps split: sum.splits prod.splits
        dest: quiet_call(2) [OF assms])
qed

lemma subscript_impl_st_keeps:
  assumes "leaves_row_alone code"
  shows "snd (BaseRow_subscript_impl_st code key asmapping self) = self"
  by (cases key)
     (auto simp: BaseRow_subscript_impl_st_def getitem_by_object_st_keeps [OF assms]
        getitem_st_keeps BaseRow_length_st_def
        split: sum.splits prod.splits option.splits dest: quiet_call(4) [OF assms])

lemma getattro_st_keeps:
  assumes "leaves_row_alone code"
  shows "snd (BaseRow_getattro_st code name self) = self"
proof -
  obtain r s1 where g: "run_generic_getattr code name self = (r, s1)"
    by (cases "run_generic_getattr code name self")
  then have s1: "s1 = self" by (rule quiet_call(5) [OF assms])
  obtain r' s2 where k: "BaseRow_subscript_mapping_st code (PyUnicode name) self = (r', s2)"
    by (cases "BaseRow_subscript_mapping_st code (PyUnicode name) self")
  with subscript_impl_st_keeps [OF assms, of "PyUnicode name" True self]
  have s2: "s2 = self" by (simp add: BaseRow_subscript_mapping_st_def)
  show ?thesis
    unfolding BaseRow_getattro_st_def g s1
    by (simp add: k s2 split: sum.splits)
qed

lemma reduce_st_keeps:
  assumes "leaves_row_alone code"
  shows "snd (BaseRow_reduce_st code self) = self"
proof -
  obtain r s1 where g: "run_getstate code self = (r, s1)"
    by (cases "run_getstate code self")
  then have s1: "s1 = self" by (rule quiet_call(6) [OF assms])
  obtain r' s2 where i: "run_import_rowproxy_reconstructor code self = (r', s2)"
    by (cases "run_import_rowproxy_reconstructor code self")
  then have s2: "s2 = self" by (rule quiet_call(10) [OF assms])
  obtain r'' s3 where c: "run_class code self = (r'', s3)"
    by (cases "run_class code self")
  then have s3: "s3 = self" by (rule quiet_call(7) [OF assms])
  show ?thesis
    unfolding BaseRow_reduce_st_def g s1
    by (simp add: i s2 c s3 split: sum.splits)
qed

lemma hash_st_keeps:
  "leaves_row_alone code \<Longrightarrow> snd (BaseRow_hash_st code self) = self"
  by (simp add: BaseRow_hash_st_def leaves_row_alone_def split: option.splits)

text \<open>Without the condition on the Python code a read can end with another struct: keyed
  access to the ambiguous column \<open>y\<close> calls \<open>__str__\<close>, which here uses the setter.\<close>

lemma meddling_read_changes_row:
  "\<not> leaves_row_alone meddling_code \<and>
   snd (BaseRow_operation sample_env meddling_code
          (Op_subscript_mapping (PyUnicode (ascii_text ''y''))) sample_row) =
     sample_row\<lparr>row := Some (PyList [])\<rparr>"
proof -
  have "snd (run_str meddling_code PyNone sample_row) \<noteq> sample_row"
    by (simp add: meddling_code_def sample_row_def)
  then have "\<not> leaves_row_alone meddling_code"
    unfolding leaves_row_alone_def by blast
  moreover have "snd (BaseRow_operation sample_env meddling_code
          (Op_subscript_mapping (PyUnicode (ascii_text ''y''))) sample_row) =
     sample_row\<lparr>row := Some (PyList [])\<rparr>"
    by (simp add: returned_def BaseRow_subscript_mapping_st_def BaseRow_subscript_impl_st_def
        BaseRow_getitem_by_object_st_def lookup_record_st_def meddling_code_def
        pure_code_def sample_row_def sample_keymap_def sample_env_def ascii_text_def
        PyUnicode_AsASCIIString_def)
  ultimately show ?thesis by simp
qed

section \<open>Construction\<close>

text \<open>
  Claim C1. For a processor list and a list of raw values of equal length (and a dict as
  keymap), calling the type succeeds whenever every processor that is present succeeds on
  its value; the row then holds, at each position \<open>i\<close>, the raw value where the processor is
  \<open>None\<close> and the processor's result for the raw value otherwise, together with the parent
  and the keymap it was given. When the processor at some position fails and those before
  it succeed, construction fails with exactly that processor's exception.
\<close>

theorem BaseRow_call_values:
  assumes len: "length processors = length rawValues"
  shows
    "((\<forall>i<length rawValues. \<forall>f. processors ! i = Some f \<longrightarrow> (\<exists>v. f (rawValues ! i) = Inr v)) \<longrightarrow>
        (\<exists>vs. BaseRow_call md processors (PyDict d) (PyList rawValues) =
                Inr \<lparr>parent = Some md, row = Some (PyTuple vs), keymap = Some d\<rparr> \<and>
              length vs = length rawValues \<and>
              (\<forall>i<length rawValues.
                 (processors ! i = None \<longrightarrow> vs ! i = rawValues ! i) \<and>
                 (\<forall>f. processors ! i = Some f \<longrightarrow> f (rawValues ! i) = Inr (vs ! i))))) \<and>
     (\<forall>i f e. i < length rawValues \<and> processors ! i = Some f \<and> f (rawValues ! i) = Inl e \<and>
          (\<forall>j<i. \<forall>g. processors ! j = Some g \<longrightarrow> (\<exists>v. g (rawValues ! j) = Inr v)) \<longrightarrow>
        BaseRow_call md processors (PyDict d) (PyList rawValues) = Inl e)"
proof (intro conjI impI allI)
  assume ok: "\<forall>i<length rawValues. \<forall>f. processors ! i = Some f \<longrightarrow> (\<exists>v. f (rawValues ! i) = Inr v)"
  then have "\<forall>i<length rawValues. \<exists>v. processed (processors ! i) (rawValues ! i) = Inr v"
    by (simp add: processed_succeeds_iff)
  from init_loop_success [OF len this, of "[]"]
  obtain vs where vs: "init_loop processors rawValues [] = Inr vs" "length vs = length rawValues"
      "\<forall>i<length rawValues. processed (processors ! i) (rawValues ! i) = Inr (vs ! i)"
    by auto
  from vs(3) have "\<forall>i<length rawValues.
      (processors ! i = None \<longrightarrow> vs ! i = rawValues ! i) \<and>
      (\<forall>f. processors ! i = Some f \<longrightarrow> f (rawValues ! i) = Inr (vs ! i))"
    by (simp add: processed_value_iff)
  with vs(1,2) show "\<exists>vs. BaseRow_call md processors (PyDict d) (PyList rawValues) =
                Inr \<lparr>parent = Some md, row = Some (PyTuple vs), keymap = Some d\<rparr> \<and>
              length vs = length rawValues \<and>
              (\<forall>i<length rawValues.
                 (processors ! i = None \<longrightarrow> vs ! i = rawValues ! i) \<and>
                 (\<forall>f. processors ! i = Some f \<longrightarrow> f (rawValues ! i) = Inr (vs ! i)))"
    by (simp add: BaseRow_call_equal_lengths [OF len])
next
  fix i f e
  assume a: "i < length rawValues \<and> processors ! i = Some f \<and> f (rawValues ! i) = Inl e \<and>
          (\<forall>j<i. \<forall>g. processors ! j = Some g \<longrightarrow> (\<exists>v. g (rawValues ! j) = Inr v))"
  then have "processed (processors ! i) (rawValues ! i) = Inl e"
    by (simp add: processed_def)
  moreover from a have "\<forall>j<i. \<exists>v. processed (processors ! j) (rawValues ! j) = Inr v"
    by (simp add: processed_succeeds_iff)
  ultimately have "init_loop processors rawValues [] = Inl e"
    using a init_loop_failure [OF len] by blast
  then show "BaseRow_call md processors (PyDict d) (PyList rawValues) = Inl e"
    by (simp add: BaseRow_call_equal_lengths [OF len])
qed

theorem BaseRow_call_values_witness:
  "length [None, Some wrap_processor] = length [PyLong 1, PyUnicode (ascii_text ''a'')] \<and>
   BaseRow_call sample_metadata [None, Some wrap_processor] (PyDict sample_keymap)
       (PyList [PyLong 1, PyUnicode (ascii_text ''a'')]) =
     Inr \<lparr>parent = Some sample_metadata,
          row = Some (PyTuple [PyLong 1, PyList [PyUnicode (ascii_text ''a'')]]),
          keymap = Some sample_keymap\<rparr> \<and>
   BaseRow_call sample_metadata [None, Some failing_processor] (PyDict sample_keymap)
       (PyList [PyLong 1, PyUnicode (ascii_text ''a'')]) =
     Inl (Exc (Derived RuntimeError 7) ''cannot convert'')"
proof -
  let ?raw = "[PyLong 1, PyUnicode (ascii_text ''a'')]"
  have len1: "length [None, Some wrap_processor] = length ?raw" by simp
  have len2: "length [None, Some failing_processor] = length ?raw" by simp
  have ok: "\<forall>i<length ?raw. \<forall>f. [None, Some wrap_processor] ! i = Some f \<longrightarrow>
      (\<exists>v. f (?raw ! i) = Inr v)"
    by (simp add: less_Suc_eq wrap_processor_def)
  from BaseRow_call_values [OF len1, of sample_metadata sample_keymap] ok
  obtain vs where vs:
    "BaseRow_call sample_metadata [None, Some wrap_processor] (PyDict sample_keymap) (PyList ?raw) =
       Inr \<lparr>parent = Some sample_metadata, row = Some (PyTuple vs), keymap = Some sample_keymap\<rparr>"
    "length vs = length ?raw"
    "\<forall>i<length ?raw. ([None, Some wrap_processor] ! i = None \<longrightarrow> vs ! i = ?raw ! i) \<and>
        (\<forall>f. [None, Some wrap_processor] ! i = Some f \<longrightarrow> f (?raw ! i) = Inr (vs ! i))"
    by blast
  from vs(3) [rule_format, of 0] vs(3) [rule_format, of 1]
  have "vs ! 0 = PyLong 1" "vs ! 1 = PyList [PyUnicode (ascii_text ''a'')]"
    by (simp_all add: wrap_processor_def)
  with vs(2) have "vs = [PyLong 1, PyList [PyUnicode (ascii_text ''a'')]]"
    by (cases vs; cases "tl vs"; cases "tl (tl vs)") auto
  with vs(1) have first: "BaseRow_call sample_metadata [None, Some wrap_processor]
      (PyDict sample_keymap) (PyList ?raw) =
     Inr \<lparr>parent = Some sample_metadata,
          row = Some (PyTuple [PyLong 1, PyList [PyUnicode (ascii_text ''a'')]]),
          keymap = Some sample_keymap\<rparr>"
    by simp
  have "1 < length ?raw \<and> [None, Some failing_processor] ! 1 = Some failing_processor \<and>
      failing_processor (?raw ! 1) = Inl (Exc (Derived RuntimeError 7) ''cannot convert'') \<and>
      (\<forall>j<1. \<forall>g. [None, Some failing_processor] ! j = Some g \<longrightarrow> (\<exists>v. g (?raw ! j) = Inr v))"
    by (simp add: failing_processor_def)
  with BaseRow_call_values [OF len2, of sample_metadata sample_keymap]
  have "BaseRow_call sample_metadata [None, Some failing_processor] (PyDict sample_keymap)
       (PyList ?raw) = Inl (Exc (Derived RuntimeError 7) ''cannot convert'')"
    by blast
  with first show ?thesis by simp
qed

section \<open>Hash and equality\<close>

text \<open>
  Claim C2 (as amended). Two rows with the same value tuple have the same hash, whatever
  parent and keymap each of them holds: \<open>BaseRow_hash\<close> hashes the value tuple and reads
  nothing else. The type has no comparison of its own, so two of its objects are equal
  exactly when they are the same object.
\<close>

theorem equal_values_equal_hash:
  assumes "row (snd v) = row (snd w)"
  shows "BaseRow_hash env (snd v) = BaseRow_hash env (snd w) \<and>
         BaseRow_compare_eq v w = (fst v = fst w)"
  using assms
  by (simp add: BaseRow_hash_def BaseRow_compare_eq_def BaseRowType_tp_richcompare_def)

theorem equal_values_equal_hash_witness:
  "row (snd (1, sample_row)) = row (snd (2, other_row)) \<and>
   parent sample_row \<noteq> parent other_row \<and>
   keymap sample_row \<noteq> keymap other_row \<and>
   BaseRow_hash sample_env sample_row = Inr 2 \<and>
   BaseRow_hash sample_env other_row = Inr 2 \<and>
   BaseRow_compare_eq (1, sample_row) (1, sample_row)"
proof -
  have eq: "row (snd (1::nat, sample_row)) = row (snd (2::nat, other_row))"
    by (simp add: sample_row_def other_row_def)
  have same: "row (snd (1::nat, sample_row)) = row (snd (1::nat, sample_row))"
    by simp
  have "parent sample_row \<noteq> parent other_row"
    by (simp add: sample_row_def other_row_def sample_metadata_def other_metadata_def)
  moreover have "keymap sample_row \<noteq> keymap other_row"
  proof
    assume "keymap sample_row = keymap other_row"
    then have "sample_keymap = Map.empty"
      by (simp add: sample_row_def other_row_def)
    then have "sample_keymap (PyUnicode (ascii_text ''x'')) = None"
      by (rule fun_cong [where f = sample_keymap and g = Map.empty, simplified])
    then show False
      by (simp add: sample_keymap_def ascii_text_def)
  qed
  moreover have "BaseRow_hash sample_env sample_row = Inr 2"
    by (simp add: BaseRow_hash_def sample_row_def sample_env_def)
  ultimately show ?thesis
    using equal_values_equal_hash [OF eq, of sample_env]
      equal_values_equal_hash [OF same, of sample_env] eq
    by simp
qed

text \<open>The claim as first stated (rows with the same values are equal) does not hold for the
  type as it is: two objects built from the same values are not equal.\<close>

theorem equal_values_equal_hash_counterexample:
  "BaseRow_call sample_metadata [None, None] (PyDict sample_keymap)
       (PyList [PyLong 10, PyLong 20]) = Inr sample_row \<and>
   BaseRow_call other_metadata [None, None] (PyDict Map.empty)
       (PyList [PyLong 10, PyLong 20]) = Inr other_row \<and>
   row sample_row = row other_row \<and>
   \<not> BaseRow_compare_eq (1, sample_row) (2, other_row)"
  by (simp add: BaseRow_call_def BaseRow_init_def BaseRow_new_def sample_row_def other_row_def
      BaseRow_compare_eq_def BaseRowType_tp_richcompare_def)

section \<open>Keyed access to an ambiguous column\<close>

text \<open>
  Claim C3 (as amended). Let the record of a key in the row's keymap have \<open>None\<close> as its
  index, and let the import of \<open>InvalidRequestError\<close> succeed. Then
  \<open>BaseRow_getitem_by_object\<close> never returns a value. If the text of the record's item 2 is
  ASCII, the failure is \<open>InvalidRequestError\<close> with the message "Ambiguous column name
  '...' in result set column descriptions", which embeds that text cut by \<open>%.200s\<close>, and the
  whole text when it has at most 200 characters and no NUL. The key itself is not
  formatted. Records that come from the parent's fallback are not covered.
\<close>

theorem ambiguous_key_fails:
  assumes "keymap self = Some km"
    and "km key = Some (PyTuple (PyNone # canonical # context # rest))"
    and "import_InvalidRequestError env = Inr InvalidRequestError"
  shows "(\<forall>v. BaseRow_getitem_by_object env self key \<noteq> Inr v) \<and>
         (\<forall>u. PyObject_Str env context = Inr u \<and> list_all (\<lambda>c. c < 128) u \<longrightarrow>
              BaseRow_getitem_by_object env self key =
                Inl (Exc InvalidRequestError (ambiguous_message (map char_of u))) \<and>
              sublist (format_s200 (map char_of u)) (ambiguous_message (map char_of u))) \<and>
         (\<forall>u. PyObject_Str env context = Inr u \<and> list_all (\<lambda>c. 0 < c \<and> c < 128) u \<and>
              length u \<le> 200 \<longrightarrow>
              sublist (map char_of u) (ambiguous_message (map char_of u)))"
proof (intro conjI allI impI)
  fix v
  from assms(1,2) have "lookup_record self key =
      Inr (PyTuple (PyNone # canonical # context # rest), True)"
    by (rule lookup_record_hit)
  then show "BaseRow_getitem_by_object env self key \<noteq> Inr v"
    by (rule ambiguous_never_returns)
next
  fix u
  assume "PyObject_Str env context = Inr u \<and> list_all (\<lambda>c. c < 128) u"
  then show "BaseRow_getitem_by_object env self key =
      Inl (Exc InvalidRequestError (ambiguous_message (map char_of u)))"
    using assms by (simp add: ambiguous_outcome PyUnicode_AsASCIIString_def)
next
  fix u :: "nat list"
  show "sublist (format_s200 (map char_of u)) (ambiguous_message (map char_of u))"
    by (rule sublist_ambiguous_message)
next
  fix u
  assume "PyObject_Str env context = Inr u \<and> list_all (\<lambda>c. 0 < c \<and> c < 128) u \<and>
    length u \<le> 200"
  then have "format_s200 (map char_of u) = map char_of u"
    by (simp add: format_s200_short)
  with sublist_ambiguous_message [of "map char_of u"]
  show "sublist (map char_of u) (ambiguous_message (map char_of u))"
    by simp
qed

theorem ambiguous_key_fails_witness:
  "keymap sample_row = Some sample_keymap \<and>
   sample_keymap (PyUnicode (ascii_text ''y'')) =
     Some (PyTuple [PyNone, PyOpaque 6, PyUnicode (ascii_text ''y'')]) \<and>
   import_InvalidRequestError sample_env = Inr InvalidRequestError \<and>
   PyObject_Str sample_env (PyUnicode (ascii_text ''y'')) = Inr (ascii_text ''y'') \<and>
   list_all (\<lambda>c. 0 < c \<and> c < 128) (ascii_text ''y'') \<and>
   length (ascii_text ''y'') \<le> 200 \<and>
   BaseRow_getitem_by_object sample_env sample_row (PyUnicode (ascii_text ''y'')) =
     Inl (Exc InvalidRequestError
       (''Ambiguous column name '' @ [CHR 0x27] @ ''y'' @ [CHR 0x27] @
        '' in result set column descriptions''))"
proof -
  have km: "keymap sample_row = Some sample_keymap"
    by (simp add: sample_row_def)
  have imp: "import_InvalidRequestError sample_env = Inr InvalidRequestError"
    by (simp add: sample_env_def)
  have str: "PyObject_Str sample_env (PyUnicode (ascii_text ''y'')) = Inr (ascii_text ''y'')"
    by (simp add: sample_env_def)
  have ascii: "list_all (\<lambda>c. 0 < c \<and> c < 128) (ascii_text ''y'')"
      "list_all (\<lambda>c. c < 128) (ascii_text ''y'')" "length (ascii_text ''y'') \<le> 200"
    by (simp_all add: ascii_text_def)
  have msg: "ambiguous_message (map char_of (ascii_text ''y'')) =
      ''Ambiguous column name '' @ [CHR 0x27] @ ''y'' @ [CHR 0x27] @
        '' in result set column descriptions''"
    by (simp add: ambiguous_message_def format_s200_def ascii_text_def char_eval)
  from ambiguous_key_fails [OF km sample_keymap_y imp] str ascii(2)
  have "BaseRow_getitem_by_object sample_env sample_row (PyUnicode (ascii_text ''y'')) =
     Inl (Exc InvalidRequestError (ambiguous_message (map char_of (ascii_text ''y''))))"
    by blast
  with km sample_keymap_y imp str ascii msg show ?thesis by simp
qed

text \<open>The claim as first stated does not hold. The failure is not always the
  ambiguous-column error: for the ambiguous column whose text is U+00E9 it is
  UnicodeEncodeError. And the message does not embed the display form of the key: for the
  key \<open>q\<close>, whose record carries the text \<open>z\<close>, the message has no \<open>q\<close> in it.\<close>

theorem ambiguous_key_fails_counterexample:
  "sample_keymap (PyUnicode [233]) = Some (PyTuple [PyNone, PyOpaque 7, PyUnicode [233]]) \<and>
   BaseRow_getitem_by_object sample_env sample_row (PyUnicode [233]) =
     Inl (Exc UnicodeEncodeError
       ([CHR 0x27] @ ''ascii'' @ [CHR 0x27] @ '' codec can'' @ [CHR 0x27] @
        ''t encode character '' @ [CHR 0x27, CHR 0x5C] @ ''xe9'' @ [CHR 0x27] @
        '' in position 0: ordinal not in range(128)'')) \<and>
   alias_keymap (PyUnicode (ascii_text ''q'')) =
     Some (PyTuple [PyNone, PyOpaque 9, PyUnicode (ascii_text ''z'')]) \<and>
   PyObject_Str sample_env (PyUnicode (ascii_text ''q'')) = Inr (ascii_text ''q'') \<and>
   BaseRow_getitem_by_object sample_env alias_row (PyUnicode (ascii_text ''q'')) =
     Inl (Exc InvalidRequestError
       (''Ambiguous column name '' @ [CHR 0x27] @ ''z'' @ [CHR 0x27] @
        '' in result set column descriptions'')) \<and>
   \<not> sublist (map char_of (ascii_text ''q''))
       (''Ambiguous column name '' @ [CHR 0x27] @ ''z'' @ [CHR 0x27] @
        '' in result set column descriptions'')"
proof -
  have a: "BaseRow_getitem_by_object sample_env sample_row (PyUnicode [233]) =
      Inl (ascii_encode_error [233])"
    by (simp add: BaseRow_getitem_by_object_def lookup_record_def sample_row_def
        sample_keymap_e sample_env_def PyUnicode_AsASCIIString_def)
  have b: "PyObject_Str sample_env (PyUnicode (ascii_text ''q'')) = Inr (ascii_text ''q'')"
    by (simp add: sample_env_def)
  have c: "\<not> sublist (map char_of (ascii_text ''q''))
       (''Ambiguous column name '' @ [CHR 0x27] @ ''z'' @ [CHR 0x27] @
        '' in result set column descriptions'')"
    by (simp add: ascii_text_def char_eval sublist_Cons_right)
  from a b c show ?thesis
    by (simp only: ascii_encode_error_e9 sample_keymap_e alias_keymap_q alias_lookup simp_thms)
qed

section \<open>Projection of keys\<close>




section \<open>Arity mismatch\<close>

text \<open>
  Claim C5, at a failing input. Construction from 2147483648 raw values and an empty
  processor list fails with RuntimeError, and no row is returned; but the message reports
  -2147483648 values, since both lengths are cast to \<open>int\<close> for the \<open>%d\<close> format. (For
  lengths below 2147483648 the message holds both lengths: \<open>BaseRow_call_arity_mismatch\<close>
  and \<open>arity_message_small\<close>.)
\<close>

theorem arity_message_truncates_lengths:
  "BaseRow_call sample_metadata [] (PyDict sample_keymap)
       (PyList (replicate 2147483648 PyNone)) =
     Inl (Exc RuntimeError
       ''number of values in row (-2147483648) differ from number of column processors (0)'')"
proof -
  have len: "length ([] :: processor option list) \<noteq> length (replicate 2147483648 PyNone)"
    by (simp only: length_replicate list.size)
  have msg: "arity_message 2147483648 0 =
      ''number of values in row (-2147483648) differ from number of column processors (0)''"
    by (simp add: arity_message_def c_int_def format_d_def dec_digits.simps char_eval)
  have l1: "int (length (replicate 2147483648 PyNone)) = 2147483648"
    by (simp only: length_replicate)
  have l2: "int (length ([] :: processor option list)) = 0"
    by simp
  have call: "BaseRow_call sample_metadata [] (PyDict sample_keymap)
       (PyList (replicate 2147483648 PyNone)) =
     Inl (Exc RuntimeError (arity_message (int (length (replicate 2147483648 PyNone)))
       (int (length ([] :: processor option list)))))"
    by (rule BaseRow_call_arity_mismatch [OF len])
  show ?thesis
    unfolding call l1 l2 msg by (rule refl)
qed

section \<open>State of a row across operations\<close>

text \<open>
  Claim C6 (as amended). Provided the Python code that an operation calls back into
  (hashing and comparing of a key, \<open>_key_fallback\<close>, \<open>__str__\<close>, \<open>__hash__\<close>, subscripting
  with a slice, generic attribute lookup, \<open>__getstate__\<close>, \<open>__class__\<close>, the imports) leaves
  the row alone, every operation of the type other than the three attribute setters
  (\<open>_parent\<close>, \<open>_data\<close>, \<open>_keymap\<close>) and a repeated \<open>__init__\<close> leaves the struct as it
  was: length, positional and keyed access, attribute access, hash, iteration, the list of
  values, \<open>__reduce__\<close>, the three getters and the comparison \<open>==\<close>.
\<close>

theorem read_operations_keep_state:
  assumes "leaves_row_alone code" and "\<not> writes_struct op"
  shows "snd (BaseRow_operation env code op self) = self"
proof (cases op)
  case Op_length
  then show ?thesis by (simp add: returned_def BaseRow_length_st_def)
next
  case (Op_item i)
  then show ?thesis by (simp add: returned_def getitem_st_keeps)
next
  case (Op_subscript key)
  then show ?thesis
    by (simp add: returned_def BaseRow_subscript_st_def subscript_impl_st_keeps [OF assms(1)])
next
  case (Op_subscript_mapping key)
  then show ?thesis
    by (simp add: returned_def BaseRow_subscript_mapping_st_def
        subscript_impl_st_keeps [OF assms(1)])
next
  case (Op_getattro name)
  then show ?thesis by (simp add: returned_def getattro_st_keeps [OF assms(1)])
next
  case Op_hash
  then show ?thesis by (simp add: returned_def hash_st_keeps [OF assms(1)])
next
  case Op_iter
  then show ?thesis
    by (simp add: returned_def BaseRow_iter_st_def split: sum.splits option.splits)
next
  case Op_values_impl
  then show ?thesis by (simp add: returned_def BaseRow_values_impl_st_def)
next
  case Op_reduce
  then show ?thesis by (simp add: returned_def reduce_st_keeps [OF assms(1)])
next
  case Op_getparent
  then show ?thesis by (simp add: returned_def BaseRow_getparent_st_def split: option.splits)
next
  case Op_getrow
  then show ?thesis by (simp add: returned_def BaseRow_getrow_st_def split: option.splits)
next
  case Op_getkeymap
  then show ?thesis by (simp add: returned_def BaseRow_getkeymap_st_def split: option.splits)
next
  case (Op_compare_eq addr other)
  then show ?thesis by simp
next
  case (Op_init p procs km r)
  with assms(2) show ?thesis by simp
next
  case (Op_setparent v)
  with assms(2) show ?thesis by simp
next
  case (Op_setrow v)
  with assms(2) show ?thesis by simp
next
  case (Op_setkeymap v)
  with assms(2) show ?thesis by simp
qed

theorem read_operations_keep_state_witness:
  "leaves_row_alone (pure_code sample_env) \<and>
   \<not> writes_struct (Op_subscript_mapping (PyUnicode (ascii_text ''x''))) \<and>
   BaseRow_operation sample_env (pure_code sample_env)
       (Op_subscript_mapping (PyUnicode (ascii_text ''x''))) sample_row =
     (Inr (V_object (PyLong 10)), sample_row)"
proof -
  have q: "leaves_row_alone (pure_code sample_env)"
    by (rule leaves_row_alone_pure)
  have n: "\<not> writes_struct (Op_subscript_mapping (PyUnicode (ascii_text ''x'')))" by simp
  have "BaseRow_subscript_mapping sample_env sample_row (PyUnicode (ascii_text ''x'')) =
      Inr (PyLong 10)"
    by (simp add: BaseRow_subscript_mapping_def BaseRow_subscript_impl_def
      BaseRow_getitem_by_object_def lookup_record_def BaseRow_getitem_def
      sample_row_def sample_keymap_def ascii_text_def)
  then have "fst (BaseRow_operation sample_env (pure_code sample_env)
      (Op_subscript_mapping (PyUnicode (ascii_text ''x''))) sample_row) =
      Inr (V_object (PyLong 10))"
    by (simp add: returned_def BaseRow_subscript_mapping_st_def BaseRow_subscript_mapping_def
        subscript_impl_st_pure)
  with read_operations_keep_state [OF q n, of sample_env sample_row] q n
  show ?thesis by (simp add: prod_eq_iff)
qed

text \<open>The claim as first stated (no operation mutates a constructed row) does not hold:
  the setter of \<open>_data\<close> replaces the value tuple of a row built by the constructor.\<close>

theorem setter_mutates_row_counterexample:
  "BaseRow_call sample_metadata [None, None] (PyDict sample_keymap) (PyList [PyLong 10, PyLong 20])
     = Inr sample_row \<and>
   BaseRow_operation sample_env (pure_code sample_env) (Op_setrow (Some (PyList []))) sample_row =
     (Inr V_done, sample_row\<lparr>row := Some (PyList [])\<rparr>) \<and>
   row (snd (BaseRow_operation sample_env (pure_code sample_env)
              (Op_setrow (Some (PyList []))) sample_row)) \<noteq>
     row sample_row"
  by (simp add: BaseRow_call_def BaseRow_init_def BaseRow_new_def BaseRow_setrow_def
      returned_def sample_row_def)

section \<open>Attribute access\<close>

text \<open>
  Claim C7, at a failing input. For the attribute name U+00E8, which no column of the
  sample row has, generic lookup fails with AttributeError and the keyed lookup fails with
  KeyError; \<open>BaseRow_getattro\<close> then encodes the name while that KeyError is still pending
  and ends with SystemError, where the claim has an attribute error that holds the name.
  (For ASCII names the KeyError does become that AttributeError: \<open>getattro_outcomes\<close>.)
\<close>

theorem getattro_KeyError_pending:
  "PyObject_GenericGetAttr sample_env sample_row [232] =
     Inl (Exc AttributeError ''no attribute'') \<and>
   BaseRow_subscript_mapping sample_env sample_row (PyUnicode [232]) =
     Inl (Exc KeyError ''no such column'') \<and>
   BaseRow_getattro sample_env sample_row [232] =
     Inl (Exc SystemError
       (''<class '' @ [CHR 0x27] @ ''UnicodeEncodeError'' @ [CHR 0x27] @
        ''> returned a result with an exception set''))"
  by (simp add: sample_generic sample_lookup_missing_e BaseRow_getattro_def
      subscript_mapping_text PyUnicode_AsASCIIString_pending_def pending_exception_message_def)

section \<open>Reconstruction\<close>

text \<open>
  Claim C8. When \<open>__new__\<close> and \<open>__setstate__\<close> return and any of \<open>parent\<close>, \<open>row\<close>, \<open>keymap\<close>
  is still unset, \<open>safe_rowproxy_reconstructor\<close> fails with RuntimeError and the message
  that names the three fields; and whatever it returns has all three fields set.
\<close>

theorem reconstructor_validates:
  "(\<forall>obj obj'. cls_new cls = Inr obj \<and> cls_setstate cls obj state = Inr obj' \<and>
        (parent obj' = None \<or> row obj' = None \<or> keymap obj' = None) \<longrightarrow>
      safe_rowproxy_reconstructor cls state = Inl (Exc RuntimeError reconstructor_message)) \<and>
   (\<forall>r. safe_rowproxy_reconstructor cls state = Inr r \<longrightarrow>
      parent r \<noteq> None \<and> row r \<noteq> None \<and> keymap r \<noteq> None)"
  by (auto simp: safe_rowproxy_reconstructor_def split: sum.splits if_splits)

theorem reconstructor_validates_witness:
  "cls_new partial_class = Inr BaseRow_new \<and>
   cls_setstate partial_class BaseRow_new (PyTuple [PyLong 1]) =
     Inr \<lparr>parent = None, row = Some (PyTuple [PyLong 1]), keymap = None\<rparr> \<and>
   safe_rowproxy_reconstructor partial_class (PyTuple [PyLong 1]) =
     Inl (Exc RuntimeError
       ''__setstate__ for BaseRow subclasses must set values for parent, row, and keymap'')"
proof -
  have a: "cls_new partial_class = Inr BaseRow_new"
    by (simp add: partial_class_def)
  have b: "cls_setstate partial_class BaseRow_new (PyTuple [PyLong 1]) =
     Inr \<lparr>parent = None, row = Some (PyTuple [PyLong 1]), keymap = None\<rparr>"
    by (simp add: partial_class_def BaseRow_new_def)
  have "safe_rowproxy_reconstructor partial_class (PyTuple [PyLong 1]) =
      Inl (Exc RuntimeError reconstructor_message)"
    using reconstructor_validates [of partial_class "PyTuple [PyLong 1]"] a b by auto
  with a b show ?thesis by (simp add: reconstructor_message_def)
qed

section \<open>Ambiguous column with a text outside ASCII\<close>

text \<open>
  Claim C9 (as amended). When the text that the ambiguous-column message would render (that
  of item 2 of the key's record in the keymap) has a code point outside ASCII,
  \<open>BaseRow_getitem_by_object\<close> fails with the UnicodeEncodeError of the ASCII codec, and no
  ambiguous-column error is raised. Whether the key itself can be rendered plays no part.
  Records that come from the parent's fallback are not covered.
\<close>

theorem ambiguous_key_encoding_error:
  assumes "keymap self = Some km"
    and "km key = Some (PyTuple (PyNone # canonical # context # rest))"
    and "import_InvalidRequestError env = Inr cls"
    and "PyObject_Str env context = Inr u"
    and "\<not> list_all (\<lambda>c. c < 128) u"
  shows "BaseRow_getitem_by_object env self key = Inl (ascii_encode_error u) \<and>
         (\<exists>m. ascii_encode_error u = Exc UnicodeEncodeError m)"
  using assms
  by (simp add: ambiguous_outcome PyUnicode_AsASCIIString_def ascii_encode_error_class)

theorem ambiguous_key_encoding_error_witness:
  "keymap sample_row = Some sample_keymap \<and>
   sample_keymap (PyUnicode [233]) = Some (PyTuple [PyNone, PyOpaque 7, PyUnicode [233]]) \<and>
   import_InvalidRequestError sample_env = Inr InvalidRequestError \<and>
   PyObject_Str sample_env (PyUnicode [233]) = Inr [233] \<and>
   \<not> list_all (\<lambda>c. c < 128) [233::nat] \<and>
   BaseRow_getitem_by_object sample_env sample_row (PyUnicode [233]) =
     Inl (Exc UnicodeEncodeError
       ([CHR 0x27] @ ''ascii'' @ [CHR 0x27] @ '' codec can'' @ [CHR 0x27] @
        ''t encode character '' @ [CHR 0x27, CHR 0x5C] @ ''xe9'' @ [CHR 0x27] @
        '' in position 0: ordinal not in range(128)''))"
proof -
  have km: "keymap sample_row = Some sample_keymap"
    by (simp add: sample_row_def)
  have imp: "import_InvalidRequestError sample_env = Inr InvalidRequestError"
    by (simp add: sample_env_def)
  have str: "PyObject_Str sample_env (PyUnicode [233]) = Inr [233]"
    by (simp add: sample_env_def)
  have non: "\<not> list_all (\<lambda>c. c < 128) [233::nat]"
    by simp
  from ambiguous_key_encoding_error [OF km sample_keymap_e imp str non]
  have "BaseRow_getitem_by_object sample_env sample_row (PyUnicode [233]) =
      Inl (ascii_encode_error [233])"
    by simp
  with km imp str non show ?thesis
    by (simp only: ascii_encode_error_e9 sample_keymap_e simp_thms)
qed

text \<open>The claim as first stated (a key that cannot be rendered in ASCII gives the encoding
  error) does not hold: for the key U+00EA, whose record carries the ASCII text \<open>z\<close>, the
  failure is the ambiguous-column error with its full message.\<close>

theorem ambiguous_key_encoding_error_counterexample:
  "alias_keymap (PyUnicode [234]) =
     Some (PyTuple [PyNone, PyOpaque 8, PyUnicode (ascii_text ''z'')]) \<and>
   PyObject_Str sample_env (PyUnicode [234]) = Inr [234] \<and>
   \<not> list_all (\<lambda>c. c < 128) [234::nat] \<and>
   BaseRow_getitem_by_object sample_env alias_row (PyUnicode [234]) =
     Inl (Exc InvalidRequestError
       (''Ambiguous column name '' @ [CHR 0x27] @ ''z'' @ [CHR 0x27] @
        '' in result set column descriptions''))"
proof -
  have str: "PyObject_Str sample_env (PyUnicode [234]) = Inr [234]"
    by (simp add: sample_env_def)
  have non: "\<not> list_all (\<lambda>c. c < 128) [234::nat]"
    by simp
  from str non show ?thesis
    by (simp only: alias_keymap_e alias_lookup simp_thms)
qed

section \<open>A tuplegetter without keys\<close>

text \<open>
  Claim C10. \<open>tuplegetter_new\<close> accepts an empty argument tuple and yields an object with
  \<open>nitems = 0\<close>; calling it returns the empty tuple whatever the row's lookup method is, so
  the method is never called.
\<close>

theorem tuplegetter_empty:
  "tuplegetter_new [] [] = Inr \<lparr>nitems = 0, item = []\<rparr> \<and>
   (\<forall>get_by_key. tuplegetter_call \<lparr>nitems = 0, item = []\<rparr> get_by_key = Inr (PyTuple []))"
  by (simp add: tuplegetter_new_def tuplegetter_call_def tuplegetter_loop.simps)

end
